theory Spec2Isabelle
  imports Main "HOL-Library.AList"
begin

section \<open>JavaScript values\<close>

text \<open>
  The runtime values the library handles. A primitive is its value (numbers are the
  integral ones), a function its reference (the number of the function object). An array
  term carries its elements and an object term its own enumerable properties in insertion
  order: such a term is an object made where the term stands, identical to no other value.
  An object whose identity the code compares is a reference \<open>JRef\<close>, with its content in
  the environment.
\<close>

datatype jsval =
    JUndefined
  | JNull
  | JBool bool
  | JNum int
  | JStr string
  | JSym string
  | JFun nat
  | JArr "jsval list"
  | JObj "(string \<times> jsval) list"
  | JRef nat

text \<open>
  What the model has to know of the objects user code made: of a function its
  \<^verbatim>\<open>name\<close>, its source text and what it returns when called with no argument and with
  one argument; of an object held by reference (\<open>JRef\<close>) its own enumerable properties;
  of a surface node whether a name is one of its properties (\<^verbatim>\<open>name in dom\<close>).
\<close>

record jsenv =
  fun_name :: "nat \<Rightarrow> string"
  fun_source :: "nat \<Rightarrow> string"
  fun_call0 :: "nat \<Rightarrow> jsval"
  fun_call1 :: "nat \<Rightarrow> jsval \<Rightarrow> jsval"
  heap :: "nat \<Rightarrow> (string \<times> jsval) list"
  node_has :: "nat \<Rightarrow> string \<Rightarrow> bool"

text \<open>\<^verbatim>\<open>a ?? b\<close>\<close>

definition nullish :: "jsval \<Rightarrow> bool" where
  "nullish v = (v = JNull \<or> v = JUndefined)"

definition coalesce :: "jsval \<Rightarrow> jsval \<Rightarrow> jsval" where
  "coalesce a b = (if nullish a then b else a)"

text \<open>\<^verbatim>\<open>obj.name\<close> on an object of the model: \<^verbatim>\<open>undefined\<close> when the property is absent.\<close>

definition getField :: "(string \<times> jsval) list \<Rightarrow> string \<Rightarrow> jsval" where
  "getField fs k = (case map_of fs k of None \<Rightarrow> JUndefined | Some v \<Rightarrow> v)"

text \<open>
  \<^verbatim>\<open>obj[name] = v\<close> on the property list: an existing property keeps its place, a new
  one goes last.
\<close>

fun setField :: "string \<Rightarrow> jsval \<Rightarrow> (string \<times> jsval) list \<Rightarrow> (string \<times> jsval) list" where
  "setField k v [] = [(k, v)]"
| "setField k v (p # ps) = (if fst p = k then (k, v) # ps else p # setField k v ps)"

text \<open>The decimal text of a non-negative index, as \<^verbatim>\<open>String(n)\<close> gives it.\<close>

definition digit10 :: "nat \<Rightarrow> char" where
  "digit10 d = (''0123456789'' ! d)"

fun string_of_nat :: "nat \<Rightarrow> string" where
  "string_of_nat n = (if n < 10 then [digit10 n] else string_of_nat (n div 10) @ [digit10 (n mod 10)])"

definition string_of_int :: "int \<Rightarrow> string" where
  "string_of_int i = (if i < 0 then CHR ''-'' # string_of_nat (nat (- i)) else string_of_nat (nat i))"

text \<open>\<^verbatim>\<open>String(v)\<close>: an array is its elements joined by commas, null and undefined elements
  being empty; an object is \<^verbatim>\<open>[object Object]\<close>.\<close>

fun joinComma :: "string list \<Rightarrow> string" where
  "joinComma [] = []"
| "joinComma [x] = x"
| "joinComma (x # y # r) = x @ '','' @ joinComma (y # r)"

fun String_js :: "jsenv \<Rightarrow> jsval \<Rightarrow> string" where
  "String_js env JUndefined = ''undefined''"
| "String_js env JNull = ''null''"
| "String_js env (JBool b) = (if b then ''true'' else ''false'')"
| "String_js env (JNum i) = string_of_int i"
| "String_js env (JStr s) = s"
| "String_js env (JSym d) = ''Symbol('' @ d @ '')''"
| "String_js env (JFun f) = fun_source env f"
| "String_js env (JArr xs) = ''''"
| "String_js env (JObj fs) = ''[object Object]''"
| "String_js env (JRef r) = ''[object Object]''"

section \<open>Constants and helpers the sources import\<close>

text \<open>
  Modelled from the spec: the markers \<^verbatim>\<open>Fragment\<close> and \<^verbatim>\<open>TEXT_ELEMENT\<close> of
  \<^verbatim>\<open>./constants\<close>, which is not among the sources. The spec calls them the Fragment
  marker and the Text marker; they are two distinct values that are no host tag and no
  function.
\<close>

definition Fragment :: jsval where
  "Fragment = JSym ''Fragment''"

definition TEXT_ELEMENT :: jsval where
  "TEXT_ELEMENT = JSym ''TEXT_ELEMENT''"

text \<open>
  Modelled from the spec: \<^verbatim>\<open>isEmptyValue\<close> of \<^verbatim>\<open>../utils\<close>, which is not among the
  sources. The spec's normalisation rule names the empty values: null, undefined and the
  booleans.
\<close>

fun isEmptyValue :: "jsval \<Rightarrow> bool" where
  "isEmptyValue JNull = True"
| "isEmptyValue JUndefined = True"
| "isEmptyValue (JBool b) = True"
| "isEmptyValue v = False"

section \<open>elements: normalizeNode, createElement\<close>

text \<open>\<^verbatim>\<open>rawChildren.flat(Infinity)\<close>\<close>

fun flat :: "jsval list \<Rightarrow> jsval list" where
  "flat [] = []"
| "flat (JArr xs # r) = flat xs @ flat r"
| "flat (x # r) = x # flat r"

text \<open>\<^verbatim>\<open>createTextElement\<close>\<close>

definition createTextElement :: "jsenv \<Rightarrow> jsval \<Rightarrow> jsval" where
  "createTextElement env node =
     JObj [(''type'', TEXT_ELEMENT), (''key'', JNull),
           (''props'', JObj [(''children'', JArr []), (''nodeValue'', JStr (String_js env node))])]"

text \<open>
  The truth value of what \<^verbatim>\<open>normalizeNode\<close> returns, for \<^verbatim>\<open>if (node) children.push(node)\<close>:
  it returns an object or null.
\<close>

definition isNode :: "jsval \<Rightarrow> bool" where
  "isNode v = (v \<noteq> JNull)"

text \<open>
  The tail of \<^verbatim>\<open>createElement\<close>, once the children are normalised: \<^verbatim>\<open>key\<close> is taken out
  of the given props (default null when undefined), the rest is copied, and a non-empty
  child list is stored as \<^verbatim>\<open>props.children\<close>.
\<close>

definition buildElement :: "jsval \<Rightarrow> (string \<times> jsval) list \<Rightarrow> jsval list \<Rightarrow> jsval" where
  "buildElement type originProps children =
     (let key = (case map_of originProps ''key'' of None \<Rightarrow> JNull
                 | Some k \<Rightarrow> if k = JUndefined then JNull else k);
          restProps = filter (\<lambda>p. fst p \<noteq> ''key'') originProps;
          props = (if children \<noteq> [] then setField ''children'' (JArr children) restProps else restProps)
      in JObj [(''type'', type), (''key'', key), (''props'', JObj props)])"

lemma size_flat_le: "size_list size (flat xs) \<le> size_list size xs"
  by (induction xs rule: flat.induct) auto

lemma size_flat_member: "x \<in> set (flat xs) \<Longrightarrow> size x \<le> size_list size xs"
  using size_flat_le [of xs] size_list_estimation' [of x "flat xs" "size x" size]
  by simp

text \<open>
  \<^verbatim>\<open>normalizeNode\<close> and \<^verbatim>\<open>createElement\<close> call each other. The props argument of
  \<^verbatim>\<open>createElement\<close> is the property list of \<^verbatim>\<open>originProps || {}\<close>: the empty list for
  null.
\<close>

function normalizeNode :: "jsenv \<Rightarrow> jsval \<Rightarrow> jsval"
  and createElement :: "jsenv \<Rightarrow> jsval \<Rightarrow> (string \<times> jsval) list \<Rightarrow> jsval list \<Rightarrow> jsval" where
  "normalizeNode env node =
     (if isEmptyValue node then JNull
      else case node of
        JArr xs \<Rightarrow> createElement env Fragment [] xs
      | JObj fs \<Rightarrow>
          JObj (setField ''key'' (coalesce (getField fs ''key'') JNull)
                 (setField ''props'' (coalesce (getField fs ''props'') JNull) fs))
      | JRef r \<Rightarrow>
          (let fs = heap env r
           in JObj (setField ''key'' (coalesce (getField fs ''key'') JNull)
                     (setField ''props'' (coalesce (getField fs ''props'') JNull) fs)))
      | _ \<Rightarrow> createTextElement env node)"
| "createElement env type originProps rawChildren =
     buildElement type originProps
       (filter isNode (map (normalizeNode env) (flat rawChildren)))"
  by pat_completeness auto
termination
  by (relation "measure (\<lambda>x. case x of Inl (env, v) \<Rightarrow> 2 * size v
                              | Inr (env, t, p, cs) \<Rightarrow> 2 * size_list size cs + 1)")
     (auto dest: size_flat_member)


lemma map_of_setField: "map_of (setField k v fs) k' = (if k' = k then Some v else map_of fs k')"
  by (induction fs) auto

lemma setField_same: "map_of fs k = Some v \<Longrightarrow> setField k v fs = fs"
  by (induction fs) (auto split: if_splits)

lemma getField_setField: "getField (setField k v fs) k' = (if k' = k then v else getField fs k')"
  by (simp add: getField_def map_of_setField)

lemma coalesce_twice: "coalesce (coalesce a JNull) JNull = coalesce a JNull"
  by (simp add: coalesce_def nullish_def)

lemma normalizeNode_object:
  "normalizeNode env (JObj fs) =
     JObj (setField ''key'' (coalesce (getField fs ''key'') JNull)
            (setField ''props'' (coalesce (getField fs ''props'') JNull) fs))"
  by simp

lemma normalizeNode_reference: "normalizeNode env (JRef r) = normalizeNode env (JObj (heap env r))"
  by (simp add: Let_def)

lemma normalizeNode_normal_object:
  "normalizeNode env (normalizeNode env (JObj fs)) = normalizeNode env (JObj fs)"
proof -
  let ?P = "coalesce (getField fs ''props'') JNull"
  let ?K = "coalesce (getField fs ''key'') JNull"
  let ?gs = "setField ''key'' ?K (setField ''props'' ?P fs)"
  have p: "getField ?gs ''props'' = ?P" and k: "getField ?gs ''key'' = ?K"
    by (simp_all add: getField_setField)
  have mp: "map_of ?gs ''props'' = Some ?P" and mk: "map_of ?gs ''key'' = Some ?K"
    by (simp_all add: map_of_setField)
  have "normalizeNode env (JObj ?gs) = JObj ?gs"
    unfolding normalizeNode_object p k coalesce_twice
    by (simp only: setField_same [OF mp] setField_same [OF mk])
  then show ?thesis by (simp only: normalizeNode_object)
qed

lemma normalizeNode_text: "normalizeNode env (createTextElement env p) = createTextElement env p"
  by (simp add: createTextElement_def getField_def coalesce_def nullish_def)

lemma normalizeNode_built: "normalizeNode env (buildElement t [] cs) = buildElement t [] cs"
  by (simp add: buildElement_def getField_def coalesce_def nullish_def Let_def)

lemma normalizeNode_fragment:
  "normalizeNode env (createElement env Fragment [] xs) = createElement env Fragment [] xs"
  by (simp only: createElement.simps normalizeNode_built)

text \<open>
  C7. \<^verbatim>\<open>normalizeNode\<close> is idempotent: normalising a normalised node gives the same node
  again. The empty values (null, undefined, the booleans) go to null, and null to null; a
  primitive goes to a Text node and an array to a Fragment node, and both pass through
  unchanged; an object passes through with \<^verbatim>\<open>props\<close> and \<^verbatim>\<open>key\<close> defaulted to null.
\<close>

theorem normalizeNode_idempotent:
  "normalizeNode env (normalizeNode env x) = normalizeNode env x
   \<and> normalizeNode env JNull = JNull
   \<and> normalizeNode env JUndefined = JNull
   \<and> normalizeNode env (JBool b) = JNull
   \<and> normalizeNode env (JNum i) = createTextElement env (JNum i)
   \<and> normalizeNode env (JStr s) = createTextElement env (JStr s)
   \<and> normalizeNode env (createTextElement env p) = createTextElement env p
   \<and> normalizeNode env (JArr xs) = createElement env Fragment [] xs
   \<and> normalizeNode env (createElement env Fragment [] xs) = createElement env Fragment [] xs
   \<and> getField (case normalizeNode env (JObj fs) of JObj gs \<Rightarrow> gs | _ \<Rightarrow> []) ''props''
         = coalesce (getField fs ''props'') JNull
   \<and> getField (case normalizeNode env (JObj fs) of JObj gs \<Rightarrow> gs | _ \<Rightarrow> []) ''key''
         = coalesce (getField fs ''key'') JNull"
proof -
  have idem: "normalizeNode env (normalizeNode env x) = normalizeNode env x"
  proof (cases x)
    case (JArr ys)
    then show ?thesis using normalizeNode_fragment [of env ys] by simp
  next
    case (JObj gs)
    then show ?thesis using normalizeNode_normal_object [of env gs] by simp
  next
    case (JNum n)
    then show ?thesis using normalizeNode_text [of env "JNum n"] by simp
  next
    case (JStr t)
    then show ?thesis using normalizeNode_text [of env "JStr t"] by simp
  next
    case (JSym d)
    then show ?thesis using normalizeNode_text [of env "JSym d"] by simp
  next
    case (JFun f)
    then show ?thesis using normalizeNode_text [of env "JFun f"] by simp
  next
    case (JRef r)
    then show ?thesis
      using normalizeNode_normal_object [of env "heap env r"]
      by (simp only: normalizeNode_reference)
  qed simp_all
  have obj: "getField (case normalizeNode env (JObj fs) of JObj gs \<Rightarrow> gs | _ \<Rightarrow> []) ''props''
               = coalesce (getField fs ''props'') JNull"
            "getField (case normalizeNode env (JObj fs) of JObj gs \<Rightarrow> gs | _ \<Rightarrow> []) ''key''
               = coalesce (getField fs ''key'') JNull"
    by (simp_all add: getField_setField)
  show ?thesis
    using idem obj normalizeNode_text [of env p] normalizeNode_fragment [of env xs]
    by simp
qed

section \<open>Virtual nodes\<close>

text \<open>
  A \<^verbatim>\<open>VNode\<close> as the reconciler's types declare it: \<^verbatim>\<open>type\<close> (a host tag, a marker or a
  component function), \<^verbatim>\<open>key\<close> (a string or null) and \<^verbatim>\<open>props\<close> (null, or the property
  bag). The bag is kept as its entries other than \<^verbatim>\<open>children\<close>, in order, and the
  \<^verbatim>\<open>children\<close> entry (absent, or a list of nodes).
\<close>

datatype vnode =
  VNode (vtype: jsval) (vkey: "string option")
        (vprops: "((string \<times> jsval) list \<times> vnode list option) option")

text \<open>\<^verbatim>\<open>node.props?.children ?? []\<close>\<close>

definition childrenOf :: "vnode \<Rightarrow> vnode list" where
  "childrenOf n = (case vprops n of None \<Rightarrow> [] | Some (es, None) \<Rightarrow> [] | Some (es, Some cs) \<Rightarrow> cs)"

text \<open>\<^verbatim>\<open>node.props ?? {}\<close>, without the children entry\<close>

definition propsOf :: "vnode \<Rightarrow> (string \<times> jsval) list" where
  "propsOf n = (case vprops n of None \<Rightarrow> [] | Some (es, cs) \<Rightarrow> es)"

section \<open>elements: createChildPath\<close>

text \<open>
  \<^verbatim>\<open>encodeURIComponent\<close> on the UTF-8 bytes of a well-formed string: a letter, a digit
  and the marks \<^verbatim>\<open>- _ . ! ~ * ' ( )\<close> stand for themselves, every other byte is written
  as a percent sign and two upper-case hexadecimal digits.
\<close>

definition uriUnreserved :: "char \<Rightarrow> bool" where
  "uriUnreserved c =
     (c \<in> set (''ABCDEFGHIJKLMNOPQRSTUVWXYZabcdefghijklmnopqrstuvwxyz0123456789-_.!~*()'' @ [CHR 0x27]))"

definition hexDigit :: "nat \<Rightarrow> char" where
  "hexDigit d = (''0123456789ABCDEF'' ! (d mod 16))"

definition percentByte :: "char \<Rightarrow> string" where
  "percentByte c = [CHR ''%'', hexDigit (of_char c div 16), hexDigit (of_char c mod 16)]"

definition encodeURIComponent :: "string \<Rightarrow> string" where
  "encodeURIComponent s = concat (map (\<lambda>c. if uriUnreserved c then [c] else percentByte c) s)"

text \<open>\<^verbatim>\<open>parentPath ? `${parentPath}.${token}` : token\<close>\<close>

definition joinPath :: "string \<Rightarrow> string \<Rightarrow> string" where
  "joinPath parentPath token = (if parentPath \<noteq> [] then parentPath @ ''.'' @ token else token)"

text \<open>\<^verbatim>\<open>typeof v === "function"\<close>\<close>

fun isFunction :: "jsval \<Rightarrow> bool" where
  "isFunction (JFun f) = True"
| "isFunction v = False"

text \<open>\<^verbatim>\<open>(nodeType as React.ComponentType).name || "Anonymous"\<close>\<close>

definition componentName :: "jsenv \<Rightarrow> jsval \<Rightarrow> string" where
  "componentName env t =
     (case t of JFun f \<Rightarrow> (if fun_name env f \<noteq> [] then fun_name env f else ''Anonymous'') | _ \<Rightarrow> ''Anonymous'')"

text \<open>
  \<^verbatim>\<open>createChildPath\<close> as the fuller of the two source files has it (the one with the
  prefixes \<^verbatim>\<open>k\<close>, \<^verbatim>\<open>f\<close>, \<^verbatim>\<open>c\<close>, \<^verbatim>\<open>i\<close>). An absent \<^verbatim>\<open>nodeType\<close> is \<^verbatim>\<open>undefined\<close>, an
  absent \<^verbatim>\<open>siblings\<close> the empty list.
\<close>

definition createChildPath :: "jsenv \<Rightarrow> string \<Rightarrow> string option \<Rightarrow> nat \<Rightarrow> jsval \<Rightarrow> vnode list \<Rightarrow> string" where
  "createChildPath env parentPath key index nodeType siblings =
     (case key of
        Some k \<Rightarrow>
          (let encodedKey = encodeURIComponent k
           in if parentPath \<noteq> [] then parentPath @ ''.k'' @ encodedKey else ''k'' @ encodedKey)
      | None \<Rightarrow>
          (let prevSiblings = take index siblings;
               targetType = (if nodeType = Fragment then Fragment else nodeType)
           in if nodeType = Fragment then
                (let count = length (filter (\<lambda>sibling. vtype sibling = Fragment \<and> vkey sibling = None) prevSiblings);
                     token = ''f'' @ string_of_nat count
                 in if parentPath \<noteq> [] then parentPath @ ''.'' @ token else token)
              else if isFunction nodeType then
                (let count = length (filter (\<lambda>sibling. vtype sibling = targetType \<and> vkey sibling = None) prevSiblings);
                     token = ''c'' @ componentName env nodeType @ ''_'' @ string_of_nat count
                 in if parentPath \<noteq> [] then parentPath @ ''.'' @ token else token)
              else
                (let token = ''i'' @ string_of_nat index
                 in if parentPath \<noteq> [] then parentPath @ ''.'' @ token else token)))"

text \<open>
  \<^verbatim>\<open>createChildPath\<close> as the shorter source file has it: the key is not encoded, and a
  keyless child that is no Fragment gets the bare count of the preceding keyless siblings
  of its type.
\<close>

definition createChildPath_plain :: "string \<Rightarrow> string option \<Rightarrow> nat \<Rightarrow> jsval \<Rightarrow> vnode list \<Rightarrow> string" where
  "createChildPath_plain parentPath key index nodeType siblings =
     (case key of
        Some k \<Rightarrow> (if parentPath \<noteq> [] then parentPath @ ''.k'' @ k else ''k'' @ k)
      | None \<Rightarrow>
          (let prevSiblings = take index siblings;
               count = length (filter (\<lambda>sibling. vtype sibling = (if nodeType = Fragment then Fragment else nodeType)
                                           \<and> vkey sibling = None) prevSiblings);
               token = (if nodeType = Fragment then ''f'' @ string_of_nat count else string_of_nat count)
           in if parentPath \<noteq> [] then parentPath @ ''.'' @ token else token))"

text \<open>
  The child token in the spec's words: \<^verbatim>\<open>k\<close> and the encoded key; else \<^verbatim>\<open>f\<close> and the
  number of preceding keyless Fragment siblings; else, for a component function, \<^verbatim>\<open>c\<close>,
  the function's name (or the placeholder), \<^verbatim>\<open>_\<close> and the number of preceding keyless
  siblings with the identical function; else \<^verbatim>\<open>i\<close> and the index.
\<close>

definition precedingKeyless :: "jsval \<Rightarrow> nat \<Rightarrow> vnode list \<Rightarrow> nat" where
  "precedingKeyless t index siblings =
     length (filter (\<lambda>s. vtype s = t \<and> vkey s = None) (take index siblings))"



text \<open>An environment without functions, for the concrete inputs below.\<close>

definition noFunctions :: jsenv where
  "noFunctions = \<lparr>fun_name = (\<lambda>f. []), fun_source = (\<lambda>f. []), fun_call0 = (\<lambda>f. JUndefined),
                   fun_call1 = (\<lambda>f v. JUndefined), heap = (\<lambda>r. []),
                   node_has = (\<lambda>n k. False)\<rparr>"

declare string_of_nat.simps [simp del]








text \<open>
  The shorter source file's \<^verbatim>\<open>createChildPath\<close> differs: no encoding of the key, and
  the bare count in place of the tokens \<^verbatim>\<open>c\<close> and \<^verbatim>\<open>i\<close>.
\<close>

lemma createChildPath_plain_token:
  "createChildPath_plain parentPath key index nodeType siblings =
     joinPath parentPath
       (case key of Some k \<Rightarrow> ''k'' @ k
        | None \<Rightarrow> if nodeType = Fragment then ''f'' @ string_of_nat (precedingKeyless Fragment index siblings)
                  else string_of_nat (precedingKeyless nodeType index siblings))"
  by (cases key) (simp_all add: createChildPath_plain_def joinPath_def precedingKeyless_def Let_def)

lemma createChildPath_plain_example:
  "createChildPath_plain ''0'' None 2 (JStr ''div'') [] = ''0.0''
   \<and> createChildPath noFunctions ''0'' None 2 (JStr ''div'') [] = ''0.i2''"
  by (simp add: createChildPath_plain_def createChildPath_def Fragment_def
        string_of_nat.simps [of 0] string_of_nat.simps [of 2] digit10_def)


section \<open>utils: shallowEquals\<close>

text \<open>\<^verbatim>\<open>Object.is\<close>: an array or object term is a new object, identical to nothing.\<close>

fun isLiteralObject :: "jsval \<Rightarrow> bool" where
  "isLiteralObject (JArr xs) = True"
| "isLiteralObject (JObj fs) = True"
| "isLiteralObject v = False"

definition objectIs :: "jsval \<Rightarrow> jsval \<Rightarrow> bool" where
  "objectIs a b = (a = b \<and> \<not> isLiteralObject a)"

fun typeof :: "jsval \<Rightarrow> string" where
  "typeof JUndefined = ''undefined''"
| "typeof JNull = ''object''"
| "typeof (JBool b) = ''boolean''"
| "typeof (JNum i) = ''number''"
| "typeof (JStr s) = ''string''"
| "typeof (JSym d) = ''symbol''"
| "typeof (JFun f) = ''function''"
| "typeof (JArr xs) = ''object''"
| "typeof (JObj fs) = ''object''"
| "typeof (JRef r) = ''object''"

text \<open>The truth value of a value in a condition.\<close>

fun truthy :: "jsval \<Rightarrow> bool" where
  "truthy JUndefined = False"
| "truthy JNull = False"
| "truthy (JBool b) = b"
| "truthy (JNum i) = (i \<noteq> 0)"
| "truthy (JStr s) = (s \<noteq> [])"
| "truthy v = True"

fun isArray :: "jsval \<Rightarrow> bool" where
  "isArray (JArr xs) = True"
| "isArray v = False"

fun elements :: "jsval \<Rightarrow> jsval list" where
  "elements (JArr xs) = xs"
| "elements v = []"

text \<open>The own enumerable properties of an object value.\<close>

fun ownFields :: "jsenv \<Rightarrow> jsval \<Rightarrow> (string \<times> jsval) list" where
  "ownFields env (JObj fs) = fs"
| "ownFields env (JRef r) = heap env r"
| "ownFields env v = []"

definition shallowEquals :: "jsenv \<Rightarrow> jsval \<Rightarrow> jsval \<Rightarrow> bool" where
  "shallowEquals env a b =
     (if objectIs a b then True
      else if typeof a \<noteq> typeof b then False
      else if a = JNull \<or> b = JNull then False
      else if isArray a \<or> isArray b then
        (if \<not> isArray a \<or> \<not> isArray b then False
         else if length (elements a) \<noteq> length (elements b) then False
         else list_all2 objectIs (elements a) (elements b))
      else if typeof a = ''object'' \<and> typeof b = ''object'' then
        (let aKeys = map fst (ownFields env a); bKeys = map fst (ownFields env b)
         in if length aKeys \<noteq> length bKeys then False
            else list_all (\<lambda>key. key \<in> set bKeys
                            \<and> objectIs (getField (ownFields env a) key) (getField (ownFields env b) key)) aKeys)
      else objectIs a b)"

section \<open>Instances, the surface and the process-wide context\<close>

text \<open>
  Modelled from the spec: \<^verbatim>\<open>NodeTypes\<close> and \<^verbatim>\<open>HookTypes.EFFECT\<close> of \<^verbatim>\<open>./constants\<close>, which
  is not among the sources. The spec's instance kinds are Host, Text, Fragment and
  Component.
\<close>

datatype NodeTypes = TEXT | FRAGMENT | HOST | COMPONENT

definition HookTypes_EFFECT :: jsval where
  "HookTypes_EFFECT = JStr ''effect''"

text \<open>
  An \<^verbatim>\<open>Instance\<close> object. The code changes an instance in place and compares instances by
  reference; \<open>iid\<close> is the number of the object, and an instance changed in place is the
  same \<open>iid\<close> with new fields. The other fields are the object's \<^verbatim>\<open>kind\<close>, \<^verbatim>\<open>dom\<close> (the
  number of a surface node), \<^verbatim>\<open>node\<close>, \<^verbatim>\<open>children\<close>, \<^verbatim>\<open>key\<close> and \<^verbatim>\<open>path\<close>.
\<close>

datatype inst =
  Instance (iid: nat) (inst_kind: NodeTypes) (inst_dom: "nat option") (inst_node: vnode)
           (inst_children: "inst option list") (inst_key: "string option") (inst_path: string)

text \<open>What the code can throw.\<close>

datatype error = Error string | TypeError string | DOMException string

text \<open>The calls made on the surface, in order.\<close>

datatype domOp =
    CreateElement nat string
  | CreateTextNode nat string
  | AppendChild nat nat
  | InsertBefore nat nat nat
  | RemoveChild nat nat
  | SetNodeValue nat string
  | SetTextContent nat string
  | SetStyle nat string string
  | AddEventListener nat string jsval
  | RemoveEventListener nat string jsval
  | SetClassName nat jsval
  | SetAttribute nat string string
  | RemoveAttribute nat string
  | SetProperty nat string jsval

text \<open>
  Modelled from the spec: the \<^verbatim>\<open>context\<close> object of \<^verbatim>\<open>./context\<close>, which is not among the
  sources: the hook store (per-path storage, per-path cursor, the paths visited in this
  pass, the stack of active components), the effect queue and the root. Beside it the
  record holds what else the code mutates: the hook arrays themselves (\<open>hooks_state\<close>
  maps a path to the reference of its array, as the closures of \<^verbatim>\<open>useState\<close> hold the array
  and not the path), the two pending flags of \<^verbatim>\<open>withEnqueue\<close>, the surface (parent, child
  list and text of each node, and the calls made on it), the user callbacks invoked, and
  the counters for new objects.
\<close>

record world =
  hooks_state :: "(string \<times> nat) list"
  hooks_cursor :: "string \<Rightarrow> nat option"
  hooks_visited :: "string set"
  componentStack :: "string list"
  arrays :: "nat \<Rightarrow> jsval list"
  arrays_next :: nat
  effects_queue :: "(string \<times> nat) list"
  renderPending :: bool
  flushPending :: bool
  calls :: "nat list"
  root_container :: "nat option"
  root_node :: "vnode option"
  root_instance :: "inst option"
  dom_parent :: "nat \<Rightarrow> nat option"
  dom_children :: "nat \<Rightarrow> nat list"
  dom_value :: "nat \<Rightarrow> string"
  dom_next :: nat
  dom_log :: "domOp list"
  inst_next :: nat

text \<open>
  Modelled from the spec: \<^verbatim>\<open>withEnqueue\<close> of \<^verbatim>\<open>../utils\<close>, which is not among the
  sources. A call marks the work as pending; the work itself runs once, later, however
  many calls were made in the tick.
\<close>

definition enqueueRender :: "world \<Rightarrow> world" where
  "enqueueRender w = w\<lparr>renderPending := True\<rparr>"

definition flushEffects :: "world \<Rightarrow> world" where
  "flushEffects w = w\<lparr>flushPending := True\<rparr>"

text \<open>
  Modelled from the spec: the getters \<^verbatim>\<open>currentPath\<close>, \<^verbatim>\<open>currentCursor\<close> and
  \<^verbatim>\<open>currentHooks\<close> of the hook context. The current path is the top of the stack of active
  components (none outside a component), the cursor of a path is 0 until it is set, and
  the hooks of a path with no storage are a new empty array.
\<close>

definition currentPath :: "world \<Rightarrow> string option" where
  "currentPath w = (if componentStack w = [] then None else Some (last (componentStack w)))"

definition currentCursor :: "world \<Rightarrow> string \<Rightarrow> nat" where
  "currentCursor w p = (case hooks_cursor w p of None \<Rightarrow> 0 | Some c \<Rightarrow> c)"

definition currentHooks :: "world \<Rightarrow> string \<Rightarrow> nat \<times> world" where
  "currentHooks w p =
     (case map_of (hooks_state w) p of
        Some a \<Rightarrow> (a, w)
      | None \<Rightarrow> (arrays_next w, w\<lparr>arrays := (arrays w)(arrays_next w := []), arrays_next := Suc (arrays_next w)\<rparr>))"

text \<open>Reading and writing an array by index: a read past the end is \<^verbatim>\<open>undefined\<close>, a write
  past the end leaves holes, which read as \<^verbatim>\<open>undefined\<close>.\<close>

definition arrayGet :: "jsval list \<Rightarrow> nat \<Rightarrow> jsval" where
  "arrayGet xs i = (if i < length xs then xs ! i else JUndefined)"

definition arraySet :: "jsval list \<Rightarrow> nat \<Rightarrow> jsval \<Rightarrow> jsval list" where
  "arraySet xs i v =
     (if i < length xs then xs[i := v] else xs @ replicate (i - length xs) JUndefined @ [v])"

text \<open>\<^verbatim>\<open>v?.name\<close> for the property names of a hook record.\<close>

fun optField :: "jsenv \<Rightarrow> jsval \<Rightarrow> string \<Rightarrow> jsval" where
  "optField env (JObj fs) k = getField fs k"
| "optField env (JRef r) k = getField (heap env r) k"
| "optField env v k = JUndefined"


section \<open>hooks: useState\<close>

text \<open>
  \<^verbatim>\<open>useState\<close>. The setter it returns is a closure over the array \<^verbatim>\<open>hooksForPath\<close> and
  the index \<^verbatim>\<open>hookIndex\<close>: the model returns the two, and \<open>setState\<close> below is the body
  of the closure.
\<close>

definition useState :: "jsenv \<Rightarrow> jsval \<Rightarrow> world \<Rightarrow> (error + jsval \<times> (nat \<times> nat)) \<times> world" where
  "useState env initialValue w =
     (case currentPath w of
        None \<Rightarrow> (Inl (Error ''hook called outside a component''), w)
      | Some p \<Rightarrow>
          (let hookIndex = currentCursor w p;
               (hooksForPath, w1) = currentHooks w p;
               w2 = (if map_of (hooks_state w1) p = None
                     then w1\<lparr>hooks_state := AList.update p hooksForPath (hooks_state w1)\<rparr> else w1);
               w3 = (if hookIndex \<ge> length (arrays w2 hooksForPath)
                     then (let v = (case initialValue of JFun f \<Rightarrow> fun_call0 env f | _ \<Rightarrow> initialValue)
                           in w2\<lparr>arrays := (arrays w2)(hooksForPath := arrays w2 hooksForPath @ [v])\<rparr>)
                     else w2);
               currentState = arrayGet (arrays w3 hooksForPath) hookIndex;
               w4 = w3\<lparr>hooks_cursor := (hooks_cursor w3)(p \<mapsto> hookIndex + 1),
                       hooks_visited := insert p (hooks_visited w3)\<rparr>
           in (Inr (currentState, (hooksForPath, hookIndex)), w4)))"

text \<open>\<^verbatim>\<open>typeof nextValue === "function" ? nextValue(prev) : nextValue\<close>\<close>

definition resolveNext :: "jsenv \<Rightarrow> jsval \<Rightarrow> jsval \<Rightarrow> jsval" where
  "resolveNext env nextValue prev = (case nextValue of JFun f \<Rightarrow> fun_call1 env f prev | _ \<Rightarrow> nextValue)"

definition setState :: "jsenv \<Rightarrow> nat \<times> nat \<Rightarrow> jsval \<Rightarrow> world \<Rightarrow> world" where
  "setState env setter nextValue w =
     (let hooksForPath = fst setter; hookIndex = snd setter;
          prev = arrayGet (arrays w hooksForPath) hookIndex;
          resolved = resolveNext env nextValue prev
      in if objectIs prev resolved then w
         else enqueueRender
                (w\<lparr>arrays := (arrays w)(hooksForPath := arraySet (arrays w hooksForPath) hookIndex resolved)\<rparr>))"

section \<open>hooks: useEffect, flushEffects\<close>

text \<open>The record \<^verbatim>\<open>useEffect\<close> stores in its slot.\<close>

definition effectHook :: "jsval \<Rightarrow> jsval \<Rightarrow> nat \<Rightarrow> jsval" where
  "effectHook deps cleanup effect =
     JObj [(''kind'', HookTypes_EFFECT), (''deps'', deps), (''cleanup'', cleanup), (''effect'', JFun effect)]"

text \<open>\<^verbatim>\<open>f?.()\<close>: nothing for null and undefined, a call for a function, a TypeError for
  anything else. The call of a user callback is recorded.\<close>

definition callOptional :: "jsval \<Rightarrow> world \<Rightarrow> (error + unit) \<times> world" where
  "callOptional f w =
     (case f of
        JFun c \<Rightarrow> (Inr (), w\<lparr>calls := calls w @ [c]\<rparr>)
      | JNull \<Rightarrow> (Inr (), w)
      | JUndefined \<Rightarrow> (Inr (), w)
      | _ \<Rightarrow> (Inl (TypeError ''not a function''), w))"

definition useEffect :: "jsenv \<Rightarrow> nat \<Rightarrow> jsval list option \<Rightarrow> world \<Rightarrow> (error + unit) \<times> world" where
  "useEffect env effect deps w =
     (case currentPath w of
        None \<Rightarrow> (Inl (Error ''hook called outside a component''), w)
      | Some p \<Rightarrow>
          (let hookIndex = currentCursor w p;
               (hooksForPath, w1) = currentHooks w p;
               w2 = (if map_of (hooks_state w1) p = None
                     then w1\<lparr>hooks_state := AList.update p hooksForPath (hooks_state w1)\<rparr> else w1);
               prevHook = arrayGet (arrays w2 hooksForPath) hookIndex;
               prevDeps = optField env prevHook ''deps'';
               shouldRun = (case deps of None \<Rightarrow> True
                            | Some ds \<Rightarrow> \<not> truthy prevHook \<or> \<not> truthy prevDeps
                                          \<or> \<not> shallowEquals env prevDeps (JArr ds));
               cleanup = coalesce (optField env prevHook ''cleanup'') JNull;
               store = (\<lambda>w'. w'\<lparr>arrays := (arrays w')(hooksForPath :=
                                    arraySet (arrays w' hooksForPath) hookIndex
                                      (effectHook (case deps of None \<Rightarrow> JNull | Some ds \<Rightarrow> JArr ds) cleanup effect)),
                                hooks_cursor := (hooks_cursor w')(p \<mapsto> hookIndex + 1),
                                hooks_visited := insert p (hooks_visited w')\<rparr>)
           in if shouldRun then
                (case callOptional cleanup w2 of
                   (Inl e, w3) \<Rightarrow> (Inl e, w3)
                 | (Inr u, w3) \<Rightarrow>
                     (Inr (), store (flushEffects (w3\<lparr>effects_queue := effects_queue w3 @ [(p, hookIndex)]\<rparr>))))
              else (Inr (), store w2)))"

text \<open>
  The work \<^verbatim>\<open>flushEffects\<close> enqueues: the queue is drained from the front; an entry whose
  path has no storage, or whose slot is empty, is dropped; else the effect runs and what it
  returns, if a function, becomes the record's cleanup.
\<close>

fun drainEffects :: "jsenv \<Rightarrow> (string \<times> nat) list \<Rightarrow> world \<Rightarrow> (error + unit) \<times> world" where
  "drainEffects env [] w = (Inr (), w\<lparr>effects_queue := []\<rparr>)"
| "drainEffects env ((p, cursor) # rest) w =
     (let w0 = w\<lparr>effects_queue := rest\<rparr>
      in case map_of (hooks_state w0) p of
           None \<Rightarrow> drainEffects env rest w0
         | Some hooksForPath \<Rightarrow>
             (let hook = arrayGet (arrays w0 hooksForPath) cursor
              in if \<not> truthy hook then drainEffects env rest w0
                 else case optField env hook ''effect'' of
                        JFun f \<Rightarrow>
                          (let result = fun_call0 env f;
                               cleanup = (if isFunction result then result else JNull);
                               hook' = (case hook of JObj fs \<Rightarrow> JObj (setField ''cleanup'' cleanup fs) | _ \<Rightarrow> hook)
                           in drainEffects env rest
                                (w0\<lparr>calls := calls w0 @ [f],
                                    arrays := (arrays w0)(hooksForPath := (arrays w0 hooksForPath)[cursor := hook'])\<rparr>))
                      | _ \<Rightarrow> (Inl (TypeError ''hook.effect is not a function''), w0)))"

definition runFlushEffects :: "jsenv \<Rightarrow> world \<Rightarrow> (error + unit) \<times> world" where
  "runFlushEffects env w = drainEffects env (effects_queue w) (w\<lparr>flushPending := False\<rparr>)"

section \<open>hooks: cleanupUnusedHooks\<close>

text \<open>\<^verbatim>\<open>hooks.forEach\<close>: the cleanup of every record of kind effect is called, in order.\<close>

fun cleanupHooks :: "jsenv \<Rightarrow> jsval list \<Rightarrow> world \<Rightarrow> (error + unit) \<times> world" where
  "cleanupHooks env [] w = (Inr (), w)"
| "cleanupHooks env (hook # hooks) w =
     (if optField env hook ''kind'' = HookTypes_EFFECT then
        (case callOptional (optField env hook ''cleanup'') w of
           (Inl e, w1) \<Rightarrow> (Inl e, w1)
         | (Inr u, w1) \<Rightarrow> cleanupHooks env hooks w1)
      else cleanupHooks env hooks w)"

text \<open>The loop over \<^verbatim>\<open>state.entries()\<close>: a path that was not visited is torn down.\<close>

fun cleanupPaths :: "jsenv \<Rightarrow> (string \<times> nat) list \<Rightarrow> world \<Rightarrow> (error + unit) \<times> world" where
  "cleanupPaths env [] w = (Inr (), w)"
| "cleanupPaths env ((p, hooks) # entries) w =
     (if p \<notin> hooks_visited w then
        (case cleanupHooks env (arrays w hooks) w of
           (Inl e, w1) \<Rightarrow> (Inl e, w1)
         | (Inr u, w1) \<Rightarrow>
             cleanupPaths env entries
               (w1\<lparr>hooks_state := AList.delete p (hooks_state w1),
                   hooks_cursor := (hooks_cursor w1)(p := None)\<rparr>))
      else cleanupPaths env entries w)"

definition cleanupUnusedHooks :: "jsenv \<Rightarrow> world \<Rightarrow> (error + unit) \<times> world" where
  "cleanupUnusedHooks env w =
     (case cleanupPaths env (hooks_state w) w of
        (Inl e, w1) \<Rightarrow> (Inl e, w1)
      | (Inr u, w1) \<Rightarrow>
          (Inr (), w1\<lparr>hooks_visited := {},
                      effects_queue := filter (\<lambda>e. map_of (hooks_state w1) (fst e) \<noteq> None) (effects_queue w1)\<rparr>))"


section \<open>The state hook\<close>

text \<open>The context before anything is set up.\<close>

definition initialWorld :: world where
  "initialWorld =
     \<lparr>hooks_state = [], hooks_cursor = (\<lambda>p. None), hooks_visited = {}, componentStack = [],
      arrays = (\<lambda>a. []), arrays_next = 0, effects_queue = [], renderPending = False,
      flushPending = False, calls = [], root_container = None, root_node = None,
      root_instance = None, dom_parent = (\<lambda>n. None), dom_children = (\<lambda>n. []),
      dom_value = (\<lambda>n. []), dom_next = 0, dom_log = [], inst_next = 0\<rparr>"

lemma arrayGet_arraySet: "arrayGet (arraySet xs i v) i = v"
  by (simp add: arrayGet_def arraySet_def nth_append)











section \<open>Tearing down unused hooks\<close>

text \<open>The user callbacks an optional call invokes, and whether the call can be made.\<close>

definition optCalls :: "jsval \<Rightarrow> nat list" where
  "optCalls f = (case f of JFun c \<Rightarrow> [c] | _ \<Rightarrow> [])"

definition callable :: "jsval \<Rightarrow> bool" where
  "callable f = (isFunction f \<or> nullish f)"

text \<open>The cleanups a torn-down array has invoked: one call for each record of kind effect
  that holds a cleanup, in the order of the records.\<close>

definition cleanupCalls :: "jsenv \<Rightarrow> jsval list \<Rightarrow> nat list" where
  "cleanupCalls env hooks =
     concat (map (\<lambda>hook. if optField env hook ''kind'' = HookTypes_EFFECT
                          then optCalls (optField env hook ''cleanup'') else []) hooks)"

text \<open>The records are well typed: the cleanup of a record of kind effect is a function or
  null.\<close>

definition cleanupsCallable :: "jsenv \<Rightarrow> jsval list \<Rightarrow> bool" where
  "cleanupsCallable env hooks =
     list_all (\<lambda>hook. optField env hook ''kind'' \<noteq> HookTypes_EFFECT \<or> callable (optField env hook ''cleanup'')) hooks"

lemma callOptional_callable:
  "callable f \<Longrightarrow> callOptional f w = (Inr (), w\<lparr>calls := calls w @ optCalls f\<rparr>)"
  by (cases f) (simp_all add: callable_def nullish_def callOptional_def optCalls_def)

lemma callOptional_Inr:
  "callOptional f w = (Inr u, w1) \<Longrightarrow> w1 = w\<lparr>calls := calls w @ optCalls f\<rparr>"
  by (cases f) (auto simp: callOptional_def optCalls_def)

lemma cleanupHooks_Inr:
  "cleanupHooks env hooks w = (Inr u, w1) \<Longrightarrow> w1 = w\<lparr>calls := calls w @ cleanupCalls env hooks\<rparr>"
proof (induction hooks arbitrary: w)
  case Nil
  then show ?case by (simp add: cleanupCalls_def)
next
  case (Cons hook hooks)
  show ?case
  proof (cases "optField env hook ''kind'' = HookTypes_EFFECT")
    case True
    with Cons.prems obtain u' w' where
      c: "callOptional (optField env hook ''cleanup'') w = (Inr u', w')" and
      r: "cleanupHooks env hooks w' = (Inr u, w1)"
      by (auto split: prod.splits sum.splits)
    from callOptional_Inr [OF c] Cons.IH [OF r] True show ?thesis
      by (simp add: cleanupCalls_def)
  next
    case False
    with Cons.prems Cons.IH [of w] show ?thesis by (simp add: cleanupCalls_def)
  qed
qed

lemma cleanupHooks_callable:
  "cleanupsCallable env hooks \<Longrightarrow>
   cleanupHooks env hooks w = (Inr (), w\<lparr>calls := calls w @ cleanupCalls env hooks\<rparr>)"
proof (induction hooks arbitrary: w)
  case Nil
  then show ?case by (simp add: cleanupCalls_def)
next
  case (Cons hook hooks)
  then show ?case
    by (auto simp: cleanupsCallable_def cleanupCalls_def callOptional_callable)
qed


text \<open>The paths a pass over the entries tears down, the calls it makes, and the context
  it leaves.\<close>

definition tornDown :: "world \<Rightarrow> (string \<times> nat) list \<Rightarrow> string set" where
  "tornDown w entries = {p \<in> fst ` set entries. p \<notin> hooks_visited w}"

definition unmountCalls :: "jsenv \<Rightarrow> world \<Rightarrow> (string \<times> nat) list \<Rightarrow> nat list" where
  "unmountCalls env w entries =
     concat (map (\<lambda>e. if fst e \<notin> hooks_visited w then cleanupCalls env (arrays w (snd e)) else []) entries)"

definition afterCleanupPaths :: "jsenv \<Rightarrow> (string \<times> nat) list \<Rightarrow> world \<Rightarrow> world" where
  "afterCleanupPaths env entries w =
     w\<lparr>calls := calls w @ unmountCalls env w entries,
       hooks_state := filter (\<lambda>e. fst e \<notin> tornDown w entries) (hooks_state w),
       hooks_cursor := (\<lambda>q. if q \<in> tornDown w entries then None else hooks_cursor w q)\<rparr>"

lemma afterCleanupPaths_Nil: "afterCleanupPaths env [] w = w"
  by (simp add: afterCleanupPaths_def tornDown_def unmountCalls_def)

lemma afterCleanupPaths_visited:
  "p \<in> hooks_visited w \<Longrightarrow> afterCleanupPaths env ((p, a) # entries) w = afterCleanupPaths env entries w"
proof -
  assume v: "p \<in> hooks_visited w"
  then have "tornDown w ((p, a) # entries) = tornDown w entries"
    by (auto simp: tornDown_def)
  with v show ?thesis by (simp add: afterCleanupPaths_def unmountCalls_def)
qed

lemma afterCleanupPaths_unvisited:
  assumes "p \<notin> hooks_visited w"
  shows "afterCleanupPaths env ((p, a) # entries) w =
         afterCleanupPaths env entries
           (w\<lparr>calls := calls w @ cleanupCalls env (arrays w a),
              hooks_state := AList.delete p (hooks_state w),
              hooks_cursor := (hooks_cursor w)(p := None)\<rparr>)"
proof -
  let ?w' = "w\<lparr>calls := calls w @ cleanupCalls env (arrays w a),
              hooks_state := AList.delete p (hooks_state w),
              hooks_cursor := (hooks_cursor w)(p := None)\<rparr>"
  have t: "tornDown w ((p, a) # entries) = insert p (tornDown ?w' entries)"
    using assms by (auto simp: tornDown_def)
  have u: "unmountCalls env w ((p, a) # entries) = cleanupCalls env (arrays w a) @ unmountCalls env ?w' entries"
    using assms by (simp add: unmountCalls_def cong: if_cong)
  have f: "filter (\<lambda>e. fst e \<noteq> p \<and> fst e \<notin> T) xs = filter (\<lambda>e. fst e \<notin> T) (AList.delete p xs)" for T xs
    by (induction xs) (auto simp: AList.delete_eq)
  show ?thesis
    unfolding afterCleanupPaths_def t u by (simp add: f fun_eq_iff)
qed

lemma cleanupPaths_Inr:
  "cleanupPaths env entries w = (Inr u, w1) \<Longrightarrow> w1 = afterCleanupPaths env entries w"
proof (induction entries arbitrary: w)
  case Nil
  then show ?case by (simp add: afterCleanupPaths_Nil)
next
  case (Cons e entries)
  obtain p a where e: "e = (p, a)" by (cases e)
  show ?case
  proof (cases "p \<in> hooks_visited w")
    case True
    with Cons e show ?thesis by (simp add: afterCleanupPaths_visited)
  next
    case False
    with Cons.prems e obtain u' w' where
      h: "cleanupHooks env (arrays w a) w = (Inr u', w')" and
      r: "cleanupPaths env entries
            (w'\<lparr>hooks_state := AList.delete p (hooks_state w'),
                hooks_cursor := (hooks_cursor w')(p := None)\<rparr>) = (Inr u, w1)"
      by (auto split: prod.splits sum.splits)
    from cleanupHooks_Inr [OF h] have w': "w' = w\<lparr>calls := calls w @ cleanupCalls env (arrays w a)\<rparr>" .
    from Cons.IH [OF r] show ?thesis
      unfolding e afterCleanupPaths_unvisited [OF False] w' by simp
  qed
qed

text \<open>Every array of an unvisited path is well typed.\<close>

definition storageCallable :: "jsenv \<Rightarrow> world \<Rightarrow> bool" where
  "storageCallable env w =
     list_all (\<lambda>e. fst e \<in> hooks_visited w \<or> cleanupsCallable env (arrays w (snd e))) (hooks_state w)"

lemma cleanupPaths_callable:
  "list_all (\<lambda>e. fst e \<in> hooks_visited w \<or> cleanupsCallable env (arrays w (snd e))) entries
   \<Longrightarrow> cleanupPaths env entries w = (Inr (), afterCleanupPaths env entries w)"
proof (induction entries arbitrary: w)
  case Nil
  then show ?case by (simp add: afterCleanupPaths_Nil)
next
  case (Cons e entries)
  obtain p a where e: "e = (p, a)" by (cases e)
  show ?case
  proof (cases "p \<in> hooks_visited w")
    case True
    with Cons e show ?thesis by (simp add: afterCleanupPaths_visited)
  next
    case False
    with Cons.prems e have ok: "cleanupsCallable env (arrays w a)" by simp
    let ?w' = "w\<lparr>calls := calls w @ cleanupCalls env (arrays w a),
              hooks_state := AList.delete p (hooks_state w),
              hooks_cursor := (hooks_cursor w)(p := None)\<rparr>"
    from Cons.prems have "list_all (\<lambda>e. fst e \<in> hooks_visited ?w' \<or> cleanupsCallable env (arrays ?w' (snd e))) entries"
      by simp
    from Cons.IH [OF this] show ?thesis
      unfolding e afterCleanupPaths_unvisited [OF False]
      using False by (simp add: cleanupHooks_callable [OF ok])
  qed
qed

text \<open>The context \<^verbatim>\<open>cleanupUnusedHooks\<close> leaves.\<close>

definition afterCleanup :: "jsenv \<Rightarrow> world \<Rightarrow> world" where
  "afterCleanup env w =
     w\<lparr>calls := calls w @ unmountCalls env w (hooks_state w),
       hooks_state := filter (\<lambda>e. fst e \<in> hooks_visited w) (hooks_state w),
       hooks_cursor := (\<lambda>q. if q \<in> fst ` set (hooks_state w) \<and> q \<notin> hooks_visited w then None else hooks_cursor w q),
       hooks_visited := {},
       effects_queue := filter (\<lambda>e. fst e \<in> fst ` set (hooks_state w) \<and> fst e \<in> hooks_visited w) (effects_queue w)\<rparr>"

lemma map_of_filter_live:
  "(\<exists>y. map_of (filter (\<lambda>e. fst e \<in> V) xs) q = Some y) = (q \<in> fst ` set xs \<and> q \<in> V)"
  by (induction xs) (auto simp: image_iff)

lemma afterCleanupPaths_all:
  "(afterCleanupPaths env (hooks_state w) w)
     \<lparr>hooks_visited := {},
      effects_queue := filter (\<lambda>e. map_of (hooks_state (afterCleanupPaths env (hooks_state w) w)) (fst e) \<noteq> None)
                         (effects_queue (afterCleanupPaths env (hooks_state w) w))\<rparr>
   = afterCleanup env w"
proof -
  have t: "(\<lambda>e. fst e \<notin> tornDown w (hooks_state w)) = (\<lambda>e. fst e \<in> hooks_visited w \<or> fst e \<notin> fst ` set (hooks_state w))"
    by (auto simp: tornDown_def fun_eq_iff)
  have f: "filter (\<lambda>e. fst e \<notin> tornDown w (hooks_state w)) (hooks_state w)
           = filter (\<lambda>e. fst e \<in> hooks_visited w) (hooks_state w)"
    unfolding t by (rule filter_cong) auto
  have c: "(\<lambda>q. if q \<in> tornDown w (hooks_state w) then None else hooks_cursor w q)
           = (\<lambda>q. if q \<in> fst ` set (hooks_state w) \<and> q \<notin> hooks_visited w then None else hooks_cursor w q)"
    by (auto simp: tornDown_def fun_eq_iff)
  show ?thesis
    unfolding afterCleanupPaths_def afterCleanup_def f c
    by (simp add: map_of_filter_live)
qed

lemma cleanupUnusedHooks_Inr:
  "cleanupUnusedHooks env w = (Inr u, w1) \<Longrightarrow> w1 = afterCleanup env w"
proof -
  assume a: "cleanupUnusedHooks env w = (Inr u, w1)"
  then obtain u' w' where p: "cleanupPaths env (hooks_state w) w = (Inr u', w')"
    and w1: "w1 = w'\<lparr>hooks_visited := {},
                     effects_queue := filter (\<lambda>e. map_of (hooks_state w') (fst e) \<noteq> None) (effects_queue w')\<rparr>"
    by (auto simp: cleanupUnusedHooks_def split: prod.splits sum.splits)
  from cleanupPaths_Inr [OF p] w1 afterCleanupPaths_all [of env w] show ?thesis by simp
qed

lemma cleanupUnusedHooks_callable:
  "storageCallable env w \<Longrightarrow> cleanupUnusedHooks env w = (Inr (), afterCleanup env w)"
  using cleanupPaths_callable [of w env "hooks_state w"] afterCleanupPaths_all [of env w]
  by (simp add: cleanupUnusedHooks_def storageCallable_def)




section \<open>The effect hook\<close>

text \<open>What the slot of the current cursor holds, and the spec's condition for skipping an
  effect: a dependency list is passed, the slot holds a record with a dependency list of the
  same length, and the elements are pairwise \<^verbatim>\<open>Object.is\<close>-equal.\<close>

definition slotValue :: "world \<Rightarrow> string \<Rightarrow> jsval" where
  "slotValue w p =
     (case map_of (hooks_state w) p of None \<Rightarrow> JUndefined
      | Some a \<Rightarrow> arrayGet (arrays w a) (currentCursor w p))"

definition depsUnchanged :: "jsenv \<Rightarrow> jsval list option \<Rightarrow> jsval \<Rightarrow> bool" where
  "depsUnchanged env deps prevHook =
     (case deps of
        None \<Rightarrow> False
      | Some ds \<Rightarrow>
          (case optField env prevHook ''deps'' of
             JArr ps \<Rightarrow> length ps = length ds \<and> list_all2 objectIs ps ds
           | _ \<Rightarrow> False))"

definition previousCleanup :: "jsenv \<Rightarrow> world \<Rightarrow> string \<Rightarrow> jsval" where
  "previousCleanup env w p = coalesce (optField env (slotValue w p) ''cleanup'') JNull"

definition depsValue :: "jsval list option \<Rightarrow> jsval" where
  "depsValue deps = (case deps of None \<Rightarrow> JNull | Some ds \<Rightarrow> JArr ds)"

lemma shallowEquals_array:
  "shallowEquals env a (JArr ds) = (case a of JArr ps \<Rightarrow> length ps = length ds \<and> list_all2 objectIs ps ds | _ \<Rightarrow> False)"
  by (cases a) (auto simp: shallowEquals_def objectIs_def)

lemma optField_truthy: "optField env v k \<noteq> JUndefined \<Longrightarrow> truthy v"
  by (cases v) auto

lemma shouldRun_iff:
  "(case deps of None \<Rightarrow> True
    | Some ds \<Rightarrow> \<not> truthy prevHook \<or> \<not> truthy (optField env prevHook ''deps'')
                  \<or> \<not> shallowEquals env (optField env prevHook ''deps'') (JArr ds))
   = (\<not> depsUnchanged env deps prevHook)"
proof (cases deps)
  case None
  then show ?thesis by (simp add: depsUnchanged_def)
next
  case (Some ds)
  show ?thesis
  proof (cases "optField env prevHook ''deps''")
    case (JArr ps)
    then have "truthy prevHook" using optField_truthy [of env prevHook "''deps''"] by simp
    with Some JArr show ?thesis by (simp add: depsUnchanged_def shallowEquals_array)
  qed (simp_all add: Some depsUnchanged_def shallowEquals_array)
qed

lemma useEffect_skip:
  assumes "currentPath w = Some p" and "depsUnchanged env deps (slotValue w p)"
  shows "\<exists>a. map_of (hooks_state w) p = Some a \<and>
         useEffect env effect deps w =
           (Inr (), w\<lparr>arrays := (arrays w)(a := arraySet (arrays w a) (currentCursor w p)
                                     (effectHook (depsValue deps) (previousCleanup env w p) effect)),
                     hooks_cursor := (hooks_cursor w)(p \<mapsto> currentCursor w p + 1),
                     hooks_visited := insert p (hooks_visited w)\<rparr>)"
proof -
  from assms(2) obtain a where a: "map_of (hooks_state w) p = Some a"
    by (cases "map_of (hooks_state w) p") (auto simp: depsUnchanged_def slotValue_def split: option.splits)
  then have s: "slotValue w p = arrayGet (arrays w a) (currentCursor w p)"
    by (simp add: slotValue_def)
  have sr: "\<not> (case deps of None \<Rightarrow> True
    | Some ds \<Rightarrow> \<not> truthy (arrayGet (arrays w a) (currentCursor w p))
                  \<or> \<not> truthy (optField env (arrayGet (arrays w a) (currentCursor w p)) ''deps'')
                  \<or> \<not> shallowEquals env (optField env (arrayGet (arrays w a) (currentCursor w p)) ''deps'') (JArr ds))"
    using assms(2) unfolding s shouldRun_iff by simp
  have "useEffect env effect deps w =
           (Inr (), w\<lparr>arrays := (arrays w)(a := arraySet (arrays w a) (currentCursor w p)
                                     (effectHook (depsValue deps) (previousCleanup env w p) effect)),
                     hooks_cursor := (hooks_cursor w)(p \<mapsto> currentCursor w p + 1),
                     hooks_visited := insert p (hooks_visited w)\<rparr>)"
    unfolding useEffect_def
    using assms(1) a sr
    by (simp add: currentHooks_def Let_def previousCleanup_def depsValue_def s)
  with a show ?thesis by blast
qed


lemma arrayGet_Nil: "arrayGet [] i = JUndefined"
  by (simp add: arrayGet_def)

lemma useEffect_run:
  assumes "currentPath w = Some p" and "\<not> depsUnchanged env deps (slotValue w p)"
    and "callable (previousCleanup env w p)"
  shows "\<exists>a w'. useEffect env effect deps w = (Inr (), w')
           \<and> calls w' = calls w @ optCalls (previousCleanup env w p)
           \<and> effects_queue w' = effects_queue w @ [(p, currentCursor w p)]
           \<and> flushPending w'
           \<and> map_of (hooks_state w') p = Some a
           \<and> arrayGet (arrays w' a) (currentCursor w p)
                = effectHook (depsValue deps) (previousCleanup env w p) effect"
proof (cases "map_of (hooks_state w) p")
  case None
  then have s: "slotValue w p = JUndefined" by (simp add: slotValue_def)
  then have c: "previousCleanup env w p = JNull"
    by (simp add: previousCleanup_def coalesce_def nullish_def)
  show ?thesis
    unfolding useEffect_def c
    using assms(1) None
    by (cases deps)
       (simp_all add: currentHooks_def Let_def arrayGet_Nil coalesce_def nullish_def callOptional_def
          optCalls_def flushEffects_def update_conv' depsValue_def arrayGet_arraySet)
next
  case (Some a)
  then have s: "slotValue w p = arrayGet (arrays w a) (currentCursor w p)"
    by (simp add: slotValue_def)
  have sr: "(case deps of None \<Rightarrow> True
    | Some ds \<Rightarrow> \<not> truthy (arrayGet (arrays w a) (currentCursor w p))
                  \<or> \<not> truthy (optField env (arrayGet (arrays w a) (currentCursor w p)) ''deps'')
                  \<or> \<not> shallowEquals env (optField env (arrayGet (arrays w a) (currentCursor w p)) ''deps'') (JArr ds))"
    using assms(2) unfolding s shouldRun_iff by simp
  have c: "coalesce (optField env (arrayGet (arrays w a) (currentCursor w p)) ''cleanup'') JNull
           = previousCleanup env w p"
    by (simp add: previousCleanup_def s)
  show ?thesis
    unfolding useEffect_def
    using assms(1) Some sr
    by (simp add: currentHooks_def Let_def c callOptional_callable [OF assms(3)] flushEffects_def
          arrayGet_arraySet depsValue_def)
qed

lemma runFlushEffects_single:
  assumes "effects_queue w = [(p, i)]" and "map_of (hooks_state w) p = Some a"
    and "arrayGet (arrays w a) i = effectHook d c e"
  shows "\<exists>w'. runFlushEffects env w = (Inr (), w') \<and> calls w' = calls w @ [e]"
  using assms
  by (simp add: runFlushEffects_def effectHook_def Let_def getField_def)


text \<open>
  C4. \<^verbatim>\<open>useEffect\<close> at a path and cursor, where the cleanup stored in the slot (if any) is a
  function. If a dependency list is passed and the slot holds a record whose dependency list
  has the same length and pairwise \<^verbatim>\<open>Object.is\<close>-equal elements, nothing is enqueued and no
  cleanup is invoked. In every other case the previous cleanup, if any, is invoked and then
  the entry of this path and cursor is appended to the effect queue and a flush is
  requested; the effect body runs in the flush, after the cleanup.
\<close>

theorem useEffect_dependency_law:
  assumes "currentPath w = Some p" and "callable (previousCleanup env w p)"
  shows "\<exists>w'. useEffect env effect deps w = (Inr (), w') \<and>
     (if depsUnchanged env deps (slotValue w p)
      then calls w' = calls w \<and> effects_queue w' = effects_queue w \<and> flushPending w' = flushPending w
      else calls w' = calls w @ optCalls (previousCleanup env w p)
           \<and> effects_queue w' = effects_queue w @ [(p, currentCursor w p)]
           \<and> flushPending w'
           \<and> (effects_queue w = [] \<longrightarrow>
                (\<exists>w''. runFlushEffects env w' = (Inr (), w'')
                   \<and> calls w'' = calls w @ optCalls (previousCleanup env w p) @ [effect])))"
proof (cases "depsUnchanged env deps (slotValue w p)")
  case True
  from useEffect_skip [OF assms(1) True, of effect] show ?thesis
    using True by auto
next
  case False
  from useEffect_run [OF assms(1) False assms(2), of effect]
  obtain a w' where r: "useEffect env effect deps w = (Inr (), w')"
    and c: "calls w' = calls w @ optCalls (previousCleanup env w p)"
    and q: "effects_queue w' = effects_queue w @ [(p, currentCursor w p)]"
    and f: "flushPending w'"
    and l: "map_of (hooks_state w') p = Some a"
    and h: "arrayGet (arrays w' a) (currentCursor w p)
              = effectHook (depsValue deps) (previousCleanup env w p) effect"
    by blast
  have "\<exists>w''. runFlushEffects env w' = (Inr (), w'')
           \<and> calls w'' = calls w @ optCalls (previousCleanup env w p) @ [effect]"
    if "effects_queue w = []"
    using runFlushEffects_single [OF _ l h, of env] q that c by simp
  with r c q f False show ?thesis by simp
qed

text \<open>A component whose first slot holds an effect record with a cleanup.\<close>

definition effectWorld :: world where
  "effectWorld =
     initialWorld\<lparr>componentStack := [''0''], hooks_state := [(''0'', 0)],
                  arrays := (\<lambda>a. [])(0 := [effectHook (JArr [JNum 1]) (JFun 7) 3]), arrays_next := 1\<rparr>"

theorem useEffect_dependency_law_witness:
  "currentPath effectWorld = Some ''0'' \<and> callable (previousCleanup noFunctions effectWorld ''0'')
   \<and> depsUnchanged noFunctions (Some [JNum 1]) (slotValue effectWorld ''0'')
   \<and> calls (snd (useEffect noFunctions 4 (Some [JNum 1]) effectWorld)) = []
   \<and> effects_queue (snd (useEffect noFunctions 4 (Some [JNum 1]) effectWorld)) = []
   \<and> \<not> depsUnchanged noFunctions (Some [JNum 2]) (slotValue effectWorld ''0'')
   \<and> calls (snd (useEffect noFunctions 4 (Some [JNum 2]) effectWorld)) = [7]
   \<and> effects_queue (snd (useEffect noFunctions 4 (Some [JNum 2]) effectWorld)) = [(''0'', 0)]
   \<and> calls (snd (runFlushEffects noFunctions (snd (useEffect noFunctions 4 (Some [JNum 2]) effectWorld)))) = [7, 4]"
proof -
  have p: "currentPath effectWorld = Some ''0''"
    by (simp add: effectWorld_def initialWorld_def currentPath_def)
  have c: "callable (previousCleanup noFunctions effectWorld ''0'')"
    by (simp add: effectWorld_def initialWorld_def callable_def previousCleanup_def slotValue_def
          currentCursor_def arrayGet_def effectHook_def getField_def coalesce_def nullish_def)
  have s: "slotValue effectWorld ''0'' = effectHook (JArr [JNum 1]) (JFun 7) 3"
    by (simp add: effectWorld_def initialWorld_def slotValue_def currentCursor_def arrayGet_def)
  have pc: "previousCleanup noFunctions effectWorld ''0'' = JFun 7"
    by (simp add: previousCleanup_def s effectHook_def getField_def coalesce_def nullish_def)
  have u1: "depsUnchanged noFunctions (Some [JNum 1]) (slotValue effectWorld ''0'')"
    by (simp add: s depsUnchanged_def effectHook_def getField_def objectIs_def)
  have u2: "\<not> depsUnchanged noFunctions (Some [JNum 2]) (slotValue effectWorld ''0'')"
    by (simp add: s depsUnchanged_def effectHook_def getField_def objectIs_def)
  have q: "effects_queue effectWorld = []" "calls effectWorld = []"
    by (simp_all add: effectWorld_def initialWorld_def)
  from useEffect_dependency_law [OF p c, of 4 "Some [JNum 1]"] u1 q
  have a: "calls (snd (useEffect noFunctions 4 (Some [JNum 1]) effectWorld)) = []"
          "effects_queue (snd (useEffect noFunctions 4 (Some [JNum 1]) effectWorld)) = []"
    by auto
  from useEffect_dependency_law [OF p c, of 4 "Some [JNum 2]"] u2 q pc
  have b: "calls (snd (useEffect noFunctions 4 (Some [JNum 2]) effectWorld)) = [7]"
          "effects_queue (snd (useEffect noFunctions 4 (Some [JNum 2]) effectWorld)) = [(''0'', 0)]"
          "calls (snd (runFlushEffects noFunctions (snd (useEffect noFunctions 4 (Some [JNum 2]) effectWorld)))) = [7, 4]"
    by (auto simp: optCalls_def currentCursor_def effectWorld_def initialWorld_def)
  from p c u1 u2 a b show ?thesis by simp
qed

lemma useState_fresh:
  assumes "map_of (hooks_state w) q = None" and "hooks_cursor w q = None" and "\<not> isFunction init"
  shows "fst (useState env init (w\<lparr>componentStack := componentStack w @ [q]\<rparr>)) = Inr (init, (arrays_next w, 0))"
  using assms
  by (cases init)
     (simp_all add: useState_def currentPath_def currentCursor_def currentHooks_def Let_def
        update_conv' arrayGet_def)

text \<open>
  C5. \<^verbatim>\<open>cleanupUnusedHooks\<close> on a store whose effect records are well typed. For every path
  with storage that was not visited, the stored cleanup of each record of kind effect is
  invoked once, in order; the path's storage and its cursor are deleted; the queued effects
  whose path has no storage left are dropped. The visited paths keep their storage, no hook
  array is changed, and the visited set is cleared. A \<^verbatim>\<open>useState\<close> at a torn-down path
  starts again from its initial value in a new array.
\<close>

theorem cleanupUnusedHooks_teardown:
  assumes "storageCallable env w"
  shows "\<exists>w'. cleanupUnusedHooks env w = (Inr (), w')
     \<and> calls w' = calls w @ unmountCalls env w (hooks_state w)
     \<and> hooks_state w' = filter (\<lambda>e. fst e \<in> hooks_visited w) (hooks_state w)
     \<and> (\<forall>q. hooks_cursor w' q =
              (if q \<in> fst ` set (hooks_state w) \<and> q \<notin> hooks_visited w then None else hooks_cursor w q))
     \<and> effects_queue w' = filter (\<lambda>e. map_of (hooks_state w') (fst e) \<noteq> None) (effects_queue w)
     \<and> arrays w' = arrays w
     \<and> hooks_visited w' = {}
     \<and> (\<forall>q init. q \<in> fst ` set (hooks_state w) \<and> q \<notin> hooks_visited w \<and> \<not> isFunction init \<longrightarrow>
          map_of (hooks_state w') q = None
          \<and> fst (useState env init (w'\<lparr>componentStack := componentStack w' @ [q]\<rparr>))
              = Inr (init, (arrays_next w', 0)))"
proof -
  let ?w' = "afterCleanup env w"
  have r: "cleanupUnusedHooks env w = (Inr (), ?w')"
    by (rule cleanupUnusedHooks_callable [OF assms])
  have gone: "map_of (hooks_state ?w') q = None" if "q \<notin> hooks_visited w" for q
    using that map_of_filter_live [of "hooks_visited w" "hooks_state w" q]
    by (simp add: afterCleanup_def)
  have fresh: "fst (useState env init (?w'\<lparr>componentStack := componentStack ?w' @ [q]\<rparr>))
                 = Inr (init, (arrays_next ?w', 0))"
    if "q \<in> fst ` set (hooks_state w)" "q \<notin> hooks_visited w" "\<not> isFunction init" for q init
  proof -
    have "hooks_cursor ?w' q = None" using that by (simp add: afterCleanup_def)
    from useState_fresh [OF gone [OF that(2)] this that(3)] show ?thesis .
  qed
  have queue: "effects_queue ?w' = filter (\<lambda>e. map_of (hooks_state ?w') (fst e) \<noteq> None) (effects_queue w)"
    by (simp add: afterCleanup_def map_of_filter_live)
  have rest: "calls ?w' = calls w @ unmountCalls env w (hooks_state w)"
    "hooks_state ?w' = filter (\<lambda>e. fst e \<in> hooks_visited w) (hooks_state w)"
    "\<forall>q. hooks_cursor ?w' q =
              (if q \<in> fst ` set (hooks_state w) \<and> q \<notin> hooks_visited w then None else hooks_cursor w q)"
    "arrays ?w' = arrays w" "hooks_visited ?w' = {}"
    by (simp_all add: afterCleanup_def)
  have last: "\<forall>q init. q \<in> fst ` set (hooks_state w) \<and> q \<notin> hooks_visited w \<and> \<not> isFunction init \<longrightarrow>
          map_of (hooks_state ?w') q = None
          \<and> fst (useState env init (?w'\<lparr>componentStack := componentStack ?w' @ [q]\<rparr>))
              = Inr (init, (arrays_next ?w', 0))"
  proof (intro allI impI, elim conjE)
    fix q init
    assume h: "q \<in> fst ` set (hooks_state w)" "q \<notin> hooks_visited w" "\<not> isFunction init"
    show "map_of (hooks_state ?w') q = None
          \<and> fst (useState env init (?w'\<lparr>componentStack := componentStack ?w' @ [q]\<rparr>))
              = Inr (init, (arrays_next ?w', 0))"
      by (rule conjI [OF gone [OF h(2)] fresh [OF h]])
  qed
  show ?thesis
    apply (rule exI [of _ ?w'])
    apply (intro conjI)
           apply (rule r)
          apply (rule rest(1))
         apply (rule rest(2))
        apply (rule rest(3))
       apply (rule queue)
      apply (rule rest(4))
     apply (rule rest(5))
    apply (rule last)
    done
qed

text \<open>A store with an unvisited path \<^verbatim>\<open>a\<close> and a visited path \<^verbatim>\<open>b\<close>.\<close>

definition twoPaths :: world where
  "twoPaths =
     initialWorld\<lparr>hooks_state := [(''a'', 0), (''b'', 1)],
                  arrays := (\<lambda>a. [])(0 := [JNum 1, effectHook JNull (JFun 7) 3],
                                     1 := [effectHook JNull (JFun 8) 4]),
                  arrays_next := 2, hooks_visited := {''b''},
                  hooks_cursor := [''a'' \<mapsto> 2, ''b'' \<mapsto> 1],
                  effects_queue := [(''a'', 1), (''b'', 0)]\<rparr>"

lemma twoPaths_callable: "storageCallable noFunctions twoPaths"
  by (simp add: storageCallable_def twoPaths_def initialWorld_def cleanupsCallable_def callable_def
        effectHook_def getField_def HookTypes_EFFECT_def nullish_def)

theorem cleanupUnusedHooks_teardown_witness:
  "storageCallable noFunctions twoPaths
   \<and> fst (cleanupUnusedHooks noFunctions twoPaths) = Inr ()
   \<and> calls (snd (cleanupUnusedHooks noFunctions twoPaths)) = [7]
   \<and> hooks_state (snd (cleanupUnusedHooks noFunctions twoPaths)) = [(''b'', 1)]
   \<and> effects_queue (snd (cleanupUnusedHooks noFunctions twoPaths)) = [(''b'', 0)]
   \<and> hooks_cursor (snd (cleanupUnusedHooks noFunctions twoPaths)) ''a'' = None
   \<and> fst (useState noFunctions (JNum 5)
            ((snd (cleanupUnusedHooks noFunctions twoPaths))\<lparr>componentStack := [''a'']\<rparr>))
       = Inr (JNum 5, (2, 0))"
proof -
  from cleanupUnusedHooks_teardown [OF twoPaths_callable]
  obtain w' where r: "cleanupUnusedHooks noFunctions twoPaths = (Inr (), w')"
    and c: "calls w' = calls twoPaths @ unmountCalls noFunctions twoPaths (hooks_state twoPaths)"
    and s: "hooks_state w' = filter (\<lambda>e. fst e \<in> hooks_visited twoPaths) (hooks_state twoPaths)"
    and k: "\<forall>q. hooks_cursor w' q =
              (if q \<in> fst ` set (hooks_state twoPaths) \<and> q \<notin> hooks_visited twoPaths then None
               else hooks_cursor twoPaths q)"
    and q: "effects_queue w' = filter (\<lambda>e. map_of (hooks_state w') (fst e) \<noteq> None) (effects_queue twoPaths)"
    and f: "\<forall>q init. q \<in> fst ` set (hooks_state twoPaths) \<and> q \<notin> hooks_visited twoPaths \<and> \<not> isFunction init \<longrightarrow>
          map_of (hooks_state w') q = None
          \<and> fst (useState noFunctions init (w'\<lparr>componentStack := componentStack w' @ [q]\<rparr>))
              = Inr (init, (arrays_next w', 0))"
    by blast
  have w': "w' = afterCleanup noFunctions twoPaths"
    using cleanupUnusedHooks_Inr [OF r] .
  have c': "calls w' = [7]"
    unfolding c
    by (simp add: twoPaths_def initialWorld_def unmountCalls_def cleanupCalls_def effectHook_def
          getField_def HookTypes_EFFECT_def optCalls_def)
  have s': "hooks_state w' = [(''b'', 1)]"
    unfolding s by (simp add: twoPaths_def initialWorld_def)
  have q': "effects_queue w' = [(''b'', 0)]"
    unfolding q s' by (simp add: twoPaths_def initialWorld_def)
  have k': "hooks_cursor w' ''a'' = None"
    using k by (simp add: twoPaths_def initialWorld_def)
  have "fst (useState noFunctions (JNum 5) (w'\<lparr>componentStack := componentStack w' @ [''a'']\<rparr>))
          = Inr (JNum 5, (arrays_next w', 0))"
    using f by (simp add: twoPaths_def initialWorld_def)
  moreover have "componentStack w' = []" "arrays_next w' = 2"
    by (simp_all add: w' afterCleanup_def twoPaths_def initialWorld_def)
  ultimately have u: "fst (useState noFunctions (JNum 5) (w'\<lparr>componentStack := [''a'']\<rparr>)) = Inr (JNum 5, (2, 0))"
    by simp
  from twoPaths_callable r c' s' q' k' u show ?thesis by simp
qed

text \<open>
  C10. The setter outlives the storage of its component. After \<^verbatim>\<open>cleanupUnusedHooks\<close> has
  deleted the storage of an unvisited path, the setter captured for a slot of that path,
  called with a value that is not \<^verbatim>\<open>Object.is\<close>-equal to the stale one, still writes the
  value into the detached array and still requests a render; the path stays without
  storage. The setter never reads the hook store: its result is the same whatever the store
  maps the paths to.
\<close>

theorem setter_outlives_storage:
  assumes "map_of (hooks_state w) p = Some a" and "p \<notin> hooks_visited w"
    and "cleanupUnusedHooks env w = (Inr (), w1)"
    and "\<not> objectIs (arrayGet (arrays w1 a) i) (resolveNext env nextValue (arrayGet (arrays w1 a) i))"
  shows "map_of (hooks_state w1) p = None \<and> arrays w1 a = arrays w a
     \<and> setState env (a, i) nextValue w1
         = w1\<lparr>arrays := (arrays w1)(a := arraySet (arrays w1 a) i
                                          (resolveNext env nextValue (arrayGet (arrays w1 a) i))),
               renderPending := True\<rparr>
     \<and> map_of (hooks_state (setState env (a, i) nextValue w1)) p = None
     \<and> setState env (a, i) nextValue (w1\<lparr>hooks_state := hs\<rparr>)
         = (setState env (a, i) nextValue w1)\<lparr>hooks_state := hs\<rparr>"
proof -
  have w1: "w1 = afterCleanup env w" using cleanupUnusedHooks_Inr [OF assms(3)] .
  have gone: "map_of (hooks_state w1) p = None"
    using assms(2) map_of_filter_live [of "hooks_visited w" "hooks_state w" p]
    by (simp add: w1 afterCleanup_def)
  have same: "arrays w1 a = arrays w a" by (simp add: w1 afterCleanup_def)
  have set: "setState env (a, i) nextValue w1
         = w1\<lparr>arrays := (arrays w1)(a := arraySet (arrays w1 a) i
                                          (resolveNext env nextValue (arrayGet (arrays w1 a) i))),
               renderPending := True\<rparr>"
    using assms(4) by (simp add: setState_def Let_def enqueueRender_def)
  have indep: "setState env (a, i) nextValue (w1\<lparr>hooks_state := hs\<rparr>)
         = (setState env (a, i) nextValue w1)\<lparr>hooks_state := hs\<rparr>"
    by (simp add: setState_def Let_def enqueueRender_def)
  from gone same set indep show ?thesis by simp
qed

theorem setter_outlives_storage_witness:
  "map_of (hooks_state twoPaths) ''a'' = Some 0 \<and> ''a'' \<notin> hooks_visited twoPaths
   \<and> fst (cleanupUnusedHooks noFunctions twoPaths) = Inr ()
   \<and> map_of (hooks_state (snd (cleanupUnusedHooks noFunctions twoPaths))) ''a'' = None
   \<and> arrays (setState noFunctions (0, 0) (JNum 2) (snd (cleanupUnusedHooks noFunctions twoPaths))) 0
       = [JNum 2, effectHook JNull (JFun 7) 3]
   \<and> renderPending (setState noFunctions (0, 0) (JNum 2) (snd (cleanupUnusedHooks noFunctions twoPaths)))"
proof -
  have a: "map_of (hooks_state twoPaths) ''a'' = Some 0" and v: "''a'' \<notin> hooks_visited twoPaths"
    by (simp_all add: twoPaths_def initialWorld_def)
  have r: "cleanupUnusedHooks noFunctions twoPaths = (Inr (), afterCleanup noFunctions twoPaths)"
    by (rule cleanupUnusedHooks_callable [OF twoPaths_callable])
  have arr: "arrays (afterCleanup noFunctions twoPaths) 0 = [JNum 1, effectHook JNull (JFun 7) 3]"
    by (simp add: afterCleanup_def twoPaths_def initialWorld_def)
  have n: "\<not> objectIs (arrayGet (arrays (afterCleanup noFunctions twoPaths) 0) 0)
             (resolveNext noFunctions (JNum 2) (arrayGet (arrays (afterCleanup noFunctions twoPaths) 0) 0))"
    by (simp add: arr arrayGet_def resolveNext_def objectIs_def)
  from setter_outlives_storage [OF a v r n] a v r arr show ?thesis
    by (simp add: arraySet_def resolveNext_def)
qed


section \<open>The surface\<close>

text \<open>
  The operations of the DOM the code calls. The tree (parent and child list of each node)
  and the text of a text node are kept; attributes, properties, styles and listeners are
  kept as the calls made. Each mutating call is appended to \<open>dom_log\<close>.
\<close>

definition logOp :: "domOp \<Rightarrow> world \<Rightarrow> world" where
  "logOp op w = w\<lparr>dom_log := dom_log w @ [op]\<rparr>"

text \<open>A node leaves the child list of its parent, if it has one.\<close>

definition detach :: "nat \<Rightarrow> world \<Rightarrow> world" where
  "detach n w =
     (case dom_parent w n of
        None \<Rightarrow> w
      | Some q \<Rightarrow> w\<lparr>dom_children := (dom_children w)(q := removeAll n (dom_children w q)),
                     dom_parent := (dom_parent w)(n := None)\<rparr>)"

text \<open>\<^verbatim>\<open>node.nextSibling\<close>\<close>

fun nextIn :: "nat \<Rightarrow> nat list \<Rightarrow> nat option" where
  "nextIn n [] = None"
| "nextIn n [x] = None"
| "nextIn n (x # y # r) = (if x = n then Some y else nextIn n (y # r))"

definition nextSibling :: "world \<Rightarrow> nat \<Rightarrow> nat option" where
  "nextSibling w n = (case dom_parent w n of None \<Rightarrow> None | Some q \<Rightarrow> nextIn n (dom_children w q))"

text \<open>A new node takes the next number; the counter is ahead of every node in use, so the
  node has no parent and no children.\<close>

definition createTextNode :: "string \<Rightarrow> world \<Rightarrow> nat \<times> world" where
  "createTextNode v w =
     (dom_next w,
      logOp (CreateTextNode (dom_next w) v)
        (w\<lparr>dom_value := (dom_value w)(dom_next w := v), dom_next := Suc (dom_next w)\<rparr>))"

text \<open>\<^verbatim>\<open>document.createElement(type as string)\<close>: a tag that is no string is refused.\<close>

definition createHostElement :: "jsval \<Rightarrow> world \<Rightarrow> (error + nat) \<times> world" where
  "createHostElement t w =
     (case t of
        JStr tag \<Rightarrow>
          (Inr (dom_next w),
           logOp (CreateElement (dom_next w) tag) (w\<lparr>dom_next := Suc (dom_next w)\<rparr>))
      | _ \<Rightarrow> (Inl (DOMException ''InvalidCharacterError''), w))"

definition appendChild :: "nat \<Rightarrow> nat \<Rightarrow> world \<Rightarrow> world" where
  "appendChild parent n w =
     (let w1 = detach n w
      in logOp (AppendChild parent n)
           (w1\<lparr>dom_children := (dom_children w1)(parent := dom_children w1 parent @ [n]),
               dom_parent := (dom_parent w1)(n \<mapsto> parent)\<rparr>))"

text \<open>The child list with a node put before the anchor.\<close>

definition putBefore :: "nat \<Rightarrow> nat \<Rightarrow> nat list \<Rightarrow> nat list" where
  "putBefore n anchor xs = takeWhile (\<lambda>x. x \<noteq> anchor) xs @ n # dropWhile (\<lambda>x. x \<noteq> anchor) xs"

text \<open>
  \<^verbatim>\<open>parent.insertBefore(node, anchor)\<close>: refused when the anchor is no child of the
  parent; a node inserted before itself stays where it is.
\<close>

definition insertBefore :: "nat \<Rightarrow> nat \<Rightarrow> nat \<Rightarrow> world \<Rightarrow> (error + unit) \<times> world" where
  "insertBefore parent n anchor w =
     (if dom_parent w anchor \<noteq> Some parent then (Inl (DOMException ''NotFoundError''), w)
      else if n = anchor then (Inr (), logOp (InsertBefore parent n anchor) w)
      else (let w1 = detach n w
            in (Inr (), logOp (InsertBefore parent n anchor)
                  (w1\<lparr>dom_children := (dom_children w1)(parent := putBefore n anchor (dom_children w1 parent)),
                      dom_parent := (dom_parent w1)(n \<mapsto> parent)\<rparr>))))"

definition removeChild :: "nat \<Rightarrow> nat \<Rightarrow> world \<Rightarrow> (error + unit) \<times> world" where
  "removeChild parent n w =
     (if dom_parent w n \<noteq> Some parent then (Inl (DOMException ''NotFoundError''), w)
      else (Inr (), logOp (RemoveChild parent n) (detach n w)))"

text \<open>\<^verbatim>\<open>container.textContent = ""\<close>: every child leaves the container.\<close>

definition clearTextContent :: "nat \<Rightarrow> world \<Rightarrow> world" where
  "clearTextContent c w =
     logOp (SetTextContent c [])
       (w\<lparr>dom_parent := (\<lambda>n. if n \<in> set (dom_children w c) then None else dom_parent w n),
          dom_children := (dom_children w)(c := [])\<rparr>)"

section \<open>dom: the nodes of an instance\<close>

text \<open>\<^verbatim>\<open>getDomNodes\<close>, for an instance that is not null.\<close>

fun getDomNodes :: "inst \<Rightarrow> nat list" where
  "getDomNodes (Instance i k d n cs ky p) =
     (if k = HOST \<or> k = TEXT then (case d of Some x \<Rightarrow> [x] | None \<Rightarrow> [])
      else concat (map (\<lambda>c. case c of None \<Rightarrow> [] | Some ci \<Rightarrow> getDomNodes ci) cs))"

text \<open>The first entry that is not null.\<close>

fun firstSome :: "'a option list \<Rightarrow> 'a option" where
  "firstSome [] = None"
| "firstSome (None # xs) = firstSome xs"
| "firstSome (Some x # xs) = Some x"

text \<open>\<^verbatim>\<open>getFirstDom\<close>, for an instance that is not null.\<close>

fun getFirstDom :: "inst \<Rightarrow> nat option" where
  "getFirstDom (Instance i k d n cs ky p) =
     (if (k = HOST \<or> k = TEXT) \<and> d \<noteq> None then d
      else firstSome (map (\<lambda>c. case c of None \<Rightarrow> None | Some ci \<Rightarrow> getFirstDom ci) cs))"

definition getFirstDomFromChildren :: "inst option list \<Rightarrow> nat option" where
  "getFirstDomFromChildren cs = firstSome (map (\<lambda>c. case c of None \<Rightarrow> None | Some ci \<Rightarrow> getFirstDom ci) cs)"

text \<open>The loop of \<^verbatim>\<open>insertInstance\<close> over the nodes: a node that is a child of the parent
  and already stands before the anchor (or last, without an anchor) is skipped.\<close>

fun insertNodes :: "nat \<Rightarrow> nat list \<Rightarrow> nat option \<Rightarrow> world \<Rightarrow> (error + unit) \<times> world" where
  "insertNodes parentDom [] anchor w = (Inr (), w)"
| "insertNodes parentDom (n # ns) anchor w =
     (if dom_parent w n = Some parentDom \<and> nextSibling w n = anchor
      then insertNodes parentDom ns anchor w
      else case anchor of
             Some a \<Rightarrow>
               (case insertBefore parentDom n a w of
                  (Inl e, w1) \<Rightarrow> (Inl e, w1)
                | (Inr u, w1) \<Rightarrow> insertNodes parentDom ns anchor w1)
           | None \<Rightarrow> insertNodes parentDom ns anchor (appendChild parentDom n w))"

definition insertInstance :: "nat \<Rightarrow> inst option \<Rightarrow> nat option \<Rightarrow> world \<Rightarrow> (error + unit) \<times> world" where
  "insertInstance parentDom i anchor w =
     (case i of None \<Rightarrow> (Inr (), w) | Some ins \<Rightarrow> insertNodes parentDom (getDomNodes ins) anchor w)"

fun removeNodes :: "nat \<Rightarrow> nat list \<Rightarrow> world \<Rightarrow> (error + unit) \<times> world" where
  "removeNodes parentDom [] w = (Inr (), w)"
| "removeNodes parentDom (n # ns) w =
     (if dom_parent w n = Some parentDom
      then (case removeChild parentDom n w of
              (Inl e, w1) \<Rightarrow> (Inl e, w1)
            | (Inr u, w1) \<Rightarrow> removeNodes parentDom ns w1)
      else removeNodes parentDom ns w)"

definition removeInstance :: "nat \<Rightarrow> inst option \<Rightarrow> world \<Rightarrow> (error + unit) \<times> world" where
  "removeInstance parentDom i w =
     (case i of None \<Rightarrow> (Inr (), w) | Some ins \<Rightarrow> removeNodes parentDom (getDomNodes ins) w)"


section \<open>dom: setDomProps, updateDomProps\<close>

text \<open>\<^verbatim>\<open>key.startsWith(prefix)\<close> and \<^verbatim>\<open>key.slice(2).toLowerCase()\<close> (ASCII letters).\<close>

definition startsWith :: "string \<Rightarrow> string \<Rightarrow> bool" where
  "startsWith pre key = (take (length pre) key = pre)"

definition lowerChar :: "char \<Rightarrow> char" where
  "lowerChar c = (if 65 \<le> (of_char c :: nat) \<and> (of_char c :: nat) \<le> 90 then char_of ((of_char c :: nat) + 32) else c)"

definition eventName :: "string \<Rightarrow> string" where
  "eventName key = map lowerChar (drop 2 key)"

text \<open>\<^verbatim>\<open>a === b\<close>, on the integral numbers the same as \<^verbatim>\<open>Object.is\<close>.\<close>

definition strictEquals :: "jsval \<Rightarrow> jsval \<Rightarrow> bool" where
  "strictEquals a b = objectIs a b"

text \<open>\<^verbatim>\<open>Object.entries(v)\<close>: of a string or an array the entries by index.\<close>

definition indexed :: "jsval list \<Rightarrow> (string \<times> jsval) list" where
  "indexed xs = zip (map string_of_nat [0..<length xs]) xs"

fun entriesOf :: "jsenv \<Rightarrow> jsval \<Rightarrow> (string \<times> jsval) list" where
  "entriesOf env (JObj fs) = fs"
| "entriesOf env (JRef r) = heap env r"
| "entriesOf env (JArr xs) = indexed xs"
| "entriesOf env (JStr s) = indexed (map (\<lambda>c. JStr [c]) s)"
| "entriesOf env v = []"

text \<open>\<^verbatim>\<open>v != null ? String(v) : ""\<close>\<close>

definition styleText :: "jsenv \<Rightarrow> jsval \<Rightarrow> string" where
  "styleText env v = (if nullish v then [] else String_js env v)"

text \<open>The calls \<^verbatim>\<open>setDomProps\<close> makes for one entry of the props.\<close>

definition setDomProp :: "jsenv \<Rightarrow> nat \<Rightarrow> string \<times> jsval \<Rightarrow> domOp list" where
  "setDomProp env el e =
     (let key = fst e; v = snd e
      in if key = ''children'' then []
         else if key = ''style'' \<and> truthy v \<and> typeof v = ''object'' then
           map (\<lambda>st. SetStyle el (fst st) (styleText env (snd st))) (entriesOf env v)
         else if startsWith ''on'' key \<and> isFunction v then [AddEventListener el (eventName key) v]
         else if key = ''className'' then [SetClassName el (coalesce v (JStr []))]
         else if startsWith ''data-'' key then
           (if \<not> nullish v then [SetAttribute el key (String_js env v)] else [])
         else if typeof v = ''boolean'' then
           (if node_has env el key then [SetProperty el key v]
            else if truthy v then [SetAttribute el key []] else [])
         else if nullish v then []
         else if node_has env el key then [SetProperty el key v]
         else [SetAttribute el key (String_js env v)])"

text \<open>\<^verbatim>\<open>setDomProps\<close>: \<^verbatim>\<open>Object.entries\<close> of null props throws.\<close>

definition setDomProps ::
  "jsenv \<Rightarrow> nat \<Rightarrow> ((string \<times> jsval) list \<times> vnode list option) option \<Rightarrow> world \<Rightarrow> (error + unit) \<times> world" where
  "setDomProps env el props w =
     (case props of
        None \<Rightarrow> (Inl (TypeError ''Cannot convert undefined or null to object''), w)
      | Some (es, cs) \<Rightarrow> (Inr (), w\<lparr>dom_log := dom_log w @ concat (map (setDomProp env el) es)\<rparr>))"

text \<open>The first loop of \<^verbatim>\<open>updateDomProps\<close>, over the previous props: one entry.\<close>

definition removedProp :: "jsenv \<Rightarrow> nat \<Rightarrow> (string \<times> jsval) list \<Rightarrow> string \<times> jsval \<Rightarrow> domOp list" where
  "removedProp env el nextProps e =
     (let key = fst e; prevValue = snd e
      in if key = ''children'' \<or> key = ''style'' then []
         else
           (let nextValue = getField nextProps key;
                hasNext = (key \<in> fst ` set nextProps);
                isUnchanged = (hasNext \<and> strictEquals nextValue prevValue)
            in if isUnchanged then []
               else if startsWith ''on'' key \<and> isFunction prevValue then
                 [RemoveEventListener el (eventName key) prevValue]
               else if key = ''className'' then
                 [SetClassName el (if hasNext then coalesce nextValue (JStr []) else JStr [])]
               else if startsWith ''data-'' key then
                 (if \<not> hasNext \<or> nullish nextValue then [RemoveAttribute el key] else [])
               else if \<not> hasNext \<and> typeof prevValue = ''boolean'' then
                 (if node_has env el key then [SetProperty el key (JBool False)] else [])
                 @ [RemoveAttribute el key]
               else if \<not> hasNext then
                 (if node_has env el key then [SetProperty el key (JStr [])] else [])
                 @ [RemoveAttribute el key]
               else []))"

text \<open>\<^verbatim>\<open>new Set([...a, ...b])\<close>: the first occurrence of each name, in order.\<close>

fun uniq :: "string list \<Rightarrow> string list" where
  "uniq [] = []"
| "uniq (x # xs) = x # uniq (filter (\<lambda>y. y \<noteq> x) xs)"

text \<open>The second loop, over the style names of both props.\<close>

definition styleOps :: "jsenv \<Rightarrow> nat \<Rightarrow> (string \<times> jsval) list \<Rightarrow> (string \<times> jsval) list \<Rightarrow> domOp list" where
  "styleOps env el prevProps nextProps =
     (let prevStyle = entriesOf env (coalesce (getField prevProps ''style'') (JObj []));
          nextStyle = entriesOf env (coalesce (getField nextProps ''style'') (JObj []));
          allStyleKeys = uniq (map fst prevStyle @ map fst nextStyle)
      in concat (map (\<lambda>name.
           (let prevVal = getField prevStyle name; nextVal = getField nextStyle name
            in if strictEquals prevVal nextVal then [] else [SetStyle el name (styleText env nextVal)]))
           allStyleKeys))"

text \<open>The third loop, over the next props: one entry.\<close>

definition addedProp :: "jsenv \<Rightarrow> nat \<Rightarrow> (string \<times> jsval) list \<Rightarrow> string \<times> jsval \<Rightarrow> domOp list" where
  "addedProp env el prevProps e =
     (let key = fst e; v = snd e
      in if key = ''children'' \<or> key = ''style'' then []
         else
           (let prevValue = getField prevProps key;
                isUnchanged = strictEquals v prevValue
            in if startsWith ''on'' key \<and> isFunction v then
                 (if isFunction prevValue \<and> \<not> strictEquals prevValue v
                  then [RemoveEventListener el (eventName key) prevValue] else [])
                 @ [AddEventListener el (eventName key) v]
               else if startsWith ''on'' key \<and> isFunction prevValue \<and> (nullish v \<or> \<not> isFunction v) then
                 [RemoveEventListener el (eventName key) prevValue]
               else if key = ''className'' then
                 (if \<not> isUnchanged then [SetClassName el (coalesce v (JStr []))] else [])
               else if startsWith ''data-'' key then
                 (if nullish v then [RemoveAttribute el key]
                  else if \<not> isUnchanged then [SetAttribute el key (String_js env v)] else [])
               else if typeof v = ''boolean'' then
                 (if node_has env el key then (if \<not> isUnchanged then [SetProperty el key v] else [])
                  else if truthy v then [SetAttribute el key []] else [RemoveAttribute el key])
               else if nullish v \<or> isUnchanged then []
               else if node_has env el key then [SetProperty el key v]
               else [SetAttribute el key (String_js env v)]))"

definition updateDomPropsOps :: "jsenv \<Rightarrow> nat \<Rightarrow> (string \<times> jsval) list \<Rightarrow> (string \<times> jsval) list \<Rightarrow> domOp list" where
  "updateDomPropsOps env el prevProps nextProps =
     concat (map (removedProp env el nextProps) prevProps)
     @ styleOps env el prevProps nextProps
     @ concat (map (addedProp env el prevProps) nextProps)"

definition updateDomProps :: "jsenv \<Rightarrow> nat \<Rightarrow> (string \<times> jsval) list \<Rightarrow> (string \<times> jsval) list \<Rightarrow> world \<Rightarrow> world" where
  "updateDomProps env el prevProps nextProps w =
     w\<lparr>dom_log := dom_log w @ updateDomPropsOps env el prevProps nextProps\<rparr>"


section \<open>reconciler\<close>

text \<open>
  A run of the reconciler ends with a value or a thrown error, in a new context, or it does
  not end: \<open>None\<close>. The recursion of \<^verbatim>\<open>reconcile\<close> goes through component functions, whose
  result is not bounded by the node they are called for, so \<open>reconcile\<close> below takes the
  depth it may recurse to; the functions it calls take the \<open>reconcile\<close> of the depth below as
  their first argument \<open>rec\<close>.
\<close>

type_synonym 'a result = "((error + 'a) \<times> world) option"

type_synonym reconciler = "nat \<Rightarrow> inst option \<Rightarrow> vnode option \<Rightarrow> string \<Rightarrow> world \<Rightarrow> (inst option) result"

text \<open>
  A component function takes the props and returns a node or null, or throws; it runs in
  the context (it calls the hooks). The table gives the function of each reference.
\<close>

type_synonym component =
  "(string \<times> jsval) list \<times> vnode list option \<Rightarrow> world \<Rightarrow> (error + vnode option) \<times> world"

definition bindR :: "'a result \<Rightarrow> ('a \<Rightarrow> world \<Rightarrow> 'b result) \<Rightarrow> 'b result" where
  "bindR m f = (case m of None \<Rightarrow> None | Some (Inl e, w) \<Rightarrow> Some (Inl e, w) | Some (Inr x, w) \<Rightarrow> f x w)"

lemma bindR_cong [fundef_cong]:
  "m = m' \<Longrightarrow> (\<And>x w. m' = Some (Inr x, w) \<Longrightarrow> f x w = f' x w) \<Longrightarrow> bindR m f = bindR m' f'"
  by (auto simp: bindR_def split: option.splits sum.splits)

text \<open>A new \<^verbatim>\<open>Instance\<close> object.\<close>

definition newInstance ::
  "NodeTypes \<Rightarrow> nat option \<Rightarrow> vnode \<Rightarrow> inst option list \<Rightarrow> string option \<Rightarrow> string \<Rightarrow> world \<Rightarrow> inst \<times> world" where
  "newInstance k d n cs ky p w = (Instance (inst_next w) k d n cs ky p, w\<lparr>inst_next := Suc (inst_next w)\<rparr>)"

text \<open>\<^verbatim>\<open>node.props?.nodeValue ?? ""\<close>\<close>

definition nodeValueOf :: "vnode \<Rightarrow> jsval" where
  "nodeValueOf n = coalesce (getField (propsOf n) ''nodeValue'') (JStr [])"

text \<open>
  The loop over the children in \<^verbatim>\<open>mountNode\<close>: each child is reconciled against null
  under its child path; under a host element (\<open>host\<close>) the new instance is inserted into it.
  The children of a node are nodes, so the filter on empty values keeps them all.
\<close>

fun mountChildren ::
  "reconciler \<Rightarrow> jsenv \<Rightarrow> bool \<Rightarrow> nat \<Rightarrow> string \<Rightarrow> vnode list \<Rightarrow> nat \<Rightarrow> vnode list \<Rightarrow> world
   \<Rightarrow> (inst option list) result" where
  "mountChildren rec env host parentDom path kids i [] w = Some (Inr [], w)"
| "mountChildren rec env host parentDom path kids i (child # rest) w =
     bindR (rec parentDom None (Some child) (createChildPath env path (vkey child) i (vtype child) kids) w)
       (\<lambda>childInstance w1.
          bindR (Some (if host then insertInstance parentDom childInstance None w1 else (Inr (), w1)))
            (\<lambda>u w2. bindR (mountChildren rec env host parentDom path kids (Suc i) rest w2)
                       (\<lambda>childInstances w3. Some (Inr (childInstance # childInstances), w3))))"

text \<open>\<^verbatim>\<open>finally { context.hooks.componentStack.pop() }\<close>\<close>

definition popStack :: "'a result \<Rightarrow> 'a result" where
  "popStack r = (case r of None \<Rightarrow> None
                 | Some (x, w) \<Rightarrow> Some (x, w\<lparr>componentStack := butlast (componentStack w)\<rparr>))"

text \<open>The hook context of a component that is about to run.\<close>

definition enterComponent :: "string \<Rightarrow> world \<Rightarrow> world" where
  "enterComponent path w =
     w\<lparr>componentStack := componentStack w @ [path],
       hooks_cursor := (hooks_cursor w)(path \<mapsto> 0),
       hooks_visited := insert path (hooks_visited w)\<rparr>"

text \<open>The child path of the one child of a component.\<close>

definition componentChildPath :: "jsenv \<Rightarrow> string \<Rightarrow> vnode option \<Rightarrow> string" where
  "componentChildPath env path childNode =
     createChildPath env path (case childNode of None \<Rightarrow> None | Some c \<Rightarrow> vkey c) 0
       (case childNode of None \<Rightarrow> JUndefined | Some c \<Rightarrow> vtype c)
       (case childNode of None \<Rightarrow> [] | Some c \<Rightarrow> [c])"

text \<open>\<^verbatim>\<open>component(props ?? {})\<close>; a type that is no function cannot be called.\<close>

definition callComponent :: "(nat \<Rightarrow> component) \<Rightarrow> vnode \<Rightarrow> world \<Rightarrow> (error + vnode option) \<times> world" where
  "callComponent comps n w =
     (case vtype n of
        JFun f \<Rightarrow> comps f (case vprops n of None \<Rightarrow> ([], None) | Some ps \<Rightarrow> ps) w
      | _ \<Rightarrow> (Inl (TypeError ''component is not a function''), w))"

definition mountComponent ::
  "reconciler \<Rightarrow> jsenv \<Rightarrow> (nat \<Rightarrow> component) \<Rightarrow> nat \<Rightarrow> vnode \<Rightarrow> string \<Rightarrow> world \<Rightarrow> inst result" where
  "mountComponent rec env comps parentDom n path w =
     popStack
       (bindR (Some (callComponent comps n (enterComponent path w)))
          (\<lambda>childNode w1.
             bindR (rec parentDom None childNode (componentChildPath env path childNode) w1)
               (\<lambda>childInstance w2.
                  Some (case newInstance COMPONENT (case childInstance of None \<Rightarrow> None | Some c \<Rightarrow> getFirstDom c) n
                               (case childInstance of None \<Rightarrow> [] | Some c \<Rightarrow> [Some c]) (vkey n) path w2 of
                          (i, w3) \<Rightarrow> (Inr i, w3)))))"

definition mountNode ::
  "reconciler \<Rightarrow> jsenv \<Rightarrow> (nat \<Rightarrow> component) \<Rightarrow> nat \<Rightarrow> vnode \<Rightarrow> string \<Rightarrow> world \<Rightarrow> inst result" where
  "mountNode rec env comps parentDom n path w =
     (if vtype n = TEXT_ELEMENT then
        (case createTextNode (String_js env (nodeValueOf n)) w of
           (el, w1) \<Rightarrow>
             (case newInstance TEXT (Some el) n [] (vkey n) path w1 of
                (i, w2) \<Rightarrow> Some (Inr i, appendChild parentDom el w2)))
      else if vtype n = Fragment then
        bindR (mountChildren rec env False parentDom path (childrenOf n) 0 (childrenOf n) w)
          (\<lambda>childInstances w1.
             Some (case newInstance FRAGMENT (getFirstDomFromChildren childInstances) n childInstances (vkey n) path w1 of
                     (i, w2) \<Rightarrow> (Inr i, w2)))
      else if isFunction (vtype n) then mountComponent rec env comps parentDom n path w
      else
        bindR (Some (createHostElement (vtype n) w))
          (\<lambda>el w1.
             bindR (Some (setDomProps env el (vprops n) w1))
               (\<lambda>u w2.
                  bindR (mountChildren rec env True el path (childrenOf n) 0 (childrenOf n) w2)
                    (\<lambda>childInstances w3.
                       Some (case newInstance HOST (Some el) n childInstances (vkey n) path (appendChild parentDom el w3) of
                               (i, w4) \<Rightarrow> (Inr i, w4))))))"


text \<open>
  The objects the code holds are references. When \<^verbatim>\<open>reconcile\<close> has changed an instance in
  place, every place that holds the same object sees the change: the instance returned is
  written over the entries with its \<open>iid\<close>.
\<close>

definition sameObject :: "inst option \<Rightarrow> inst \<Rightarrow> inst" where
  "sameObject r c = (case r of None \<Rightarrow> c | Some x \<Rightarrow> if iid x = iid c then x else c)"

text \<open>The two collections built from the old children: the key map and the keyless list.\<close>

fun buildKeyMap :: "inst option list \<Rightarrow> (string \<times> inst) list \<Rightarrow> (string \<times> inst) list" where
  "buildKeyMap [] m = m"
| "buildKeyMap (None # cs) m = buildKeyMap cs m"
| "buildKeyMap (Some c # cs) m =
     (case inst_key c of Some k \<Rightarrow> buildKeyMap cs (AList.update k c m) | None \<Rightarrow> buildKeyMap cs m)"

fun keylessOf :: "inst option list \<Rightarrow> inst list" where
  "keylessOf [] = []"
| "keylessOf (None # cs) = keylessOf cs"
| "keylessOf (Some c # cs) = (case inst_key c of Some k \<Rightarrow> keylessOf cs | None \<Rightarrow> c # keylessOf cs)"

text \<open>The match of one new child: by key first, else the first unused keyless old child
  of the child's type. The result is the match and the used set.\<close>

definition matchChild :: "(string \<times> inst) list \<Rightarrow> inst list \<Rightarrow> nat list \<Rightarrow> vnode \<Rightarrow> inst option \<times> nat list" where
  "matchChild keyMap keyless used newChild =
     (case (case vkey newChild of Some k \<Rightarrow> map_of keyMap k | None \<Rightarrow> None) of
        Some m \<Rightarrow> (Some m, used @ [iid m])
      | None \<Rightarrow>
          (case find (\<lambda>oldChild. iid oldChild \<notin> set used
                                  \<and> strictEquals (vtype (inst_node oldChild)) (vtype newChild)) keyless of
             Some m \<Rightarrow> (Some m, used @ [iid m])
           | None \<Rightarrow> (None, used)))"

text \<open>The loop over the new children in \<^verbatim>\<open>reconcileChildren\<close>.\<close>

fun matchChildren ::
  "reconciler \<Rightarrow> jsenv \<Rightarrow> nat \<Rightarrow> string \<Rightarrow> vnode list \<Rightarrow> nat \<Rightarrow> vnode list
   \<Rightarrow> (string \<times> inst) list \<Rightarrow> inst list \<Rightarrow> nat list \<Rightarrow> inst option list \<Rightarrow> world
   \<Rightarrow> (inst option list \<times> nat list) result" where
  "matchChildren rec env parentDom path newChildren i [] keyMap keyless used newChildInstances w =
     Some (Inr (newChildInstances, used), w)"
| "matchChildren rec env parentDom path newChildren i (newChild # rest) keyMap keyless used newChildInstances w =
     (case matchChild keyMap keyless used newChild of
        (matchedInstance, used1) \<Rightarrow>
          bindR (rec parentDom matchedInstance (Some newChild)
                   (createChildPath env path (vkey newChild) i (vtype newChild) newChildren) w)
            (\<lambda>newChildInstance w1.
               matchChildren rec env parentDom path newChildren (Suc i) rest
                 (map (\<lambda>e. (fst e, sameObject newChildInstance (snd e))) keyMap)
                 (map (sameObject newChildInstance) keyless)
                 used1
                 (map (map_option (sameObject newChildInstance)) newChildInstances @ [newChildInstance])
                 w1))"

text \<open>The old children that were not used are removed.\<close>

fun removeUnused :: "nat \<Rightarrow> inst option list \<Rightarrow> nat list \<Rightarrow> world \<Rightarrow> (error + unit) \<times> world" where
  "removeUnused parentDom [] used w = (Inr (), w)"
| "removeUnused parentDom (None # cs) used w = removeUnused parentDom cs used w"
| "removeUnused parentDom (Some c # cs) used w =
     (if iid c \<notin> set used
      then (case removeInstance parentDom (Some c) w of
              (Inl e, w1) \<Rightarrow> (Inl e, w1)
            | (Inr u, w1) \<Rightarrow> removeUnused parentDom cs used w1)
      else removeUnused parentDom cs used w)"

text \<open>The placement loop, from the last new instance to the first: the argument is the
  list of new instances reversed.\<close>

fun placeChildren :: "nat \<Rightarrow> inst option list \<Rightarrow> nat option \<Rightarrow> world \<Rightarrow> (error + unit) \<times> world" where
  "placeChildren parentDom [] anchor w = (Inr (), w)"
| "placeChildren parentDom (None # cs) anchor w = placeChildren parentDom cs anchor w"
| "placeChildren parentDom (Some c # cs) anchor w =
     (case getFirstDom c of
        None \<Rightarrow> placeChildren parentDom cs anchor w
      | Some firstDom \<Rightarrow>
          (case insertInstance parentDom (Some c) anchor w of
             (Inl e, w1) \<Rightarrow> (Inl e, w1)
           | (Inr u, w1) \<Rightarrow> placeChildren parentDom cs (Some firstDom) w1))"

text \<open>\<^verbatim>\<open>reconcileChildren\<close>; the result is the instance with its new children.\<close>

definition setChildren :: "inst \<Rightarrow> inst option list \<Rightarrow> inst" where
  "setChildren c cs = Instance (iid c) (inst_kind c) (inst_dom c) (inst_node c) cs (inst_key c) (inst_path c)"

definition setNode :: "inst \<Rightarrow> vnode \<Rightarrow> inst" where
  "setNode c n = Instance (iid c) (inst_kind c) (inst_dom c) n (inst_children c) (inst_key c) (inst_path c)"

definition setDom :: "inst \<Rightarrow> nat option \<Rightarrow> inst" where
  "setDom c d = Instance (iid c) (inst_kind c) d (inst_node c) (inst_children c) (inst_key c) (inst_path c)"

definition reconcileChildren ::
  "reconciler \<Rightarrow> jsenv \<Rightarrow> nat \<Rightarrow> inst \<Rightarrow> vnode \<Rightarrow> string \<Rightarrow> world \<Rightarrow> inst result" where
  "reconcileChildren rec env parentDom ins n path w =
     (let oldChildren = inst_children ins; newChildren = childrenOf n
      in bindR (matchChildren rec env parentDom path newChildren 0 newChildren
                  (buildKeyMap oldChildren []) (keylessOf oldChildren) [] [] w)
           (\<lambda>matched w1.
              bindR (Some (removeUnused parentDom oldChildren (snd matched) w1))
                (\<lambda>u w2.
                   bindR (Some (placeChildren parentDom (rev (fst matched)) None w2))
                     (\<lambda>u w3. Some (Inr (setChildren ins (fst matched)), w3)))))"

definition updateComponent ::
  "reconciler \<Rightarrow> jsenv \<Rightarrow> (nat \<Rightarrow> component) \<Rightarrow> nat \<Rightarrow> inst \<Rightarrow> vnode \<Rightarrow> string \<Rightarrow> world \<Rightarrow> inst result" where
  "updateComponent rec env comps parentDom ins n path w =
     popStack
       (bindR (Some (callComponent comps n (enterComponent path w)))
          (\<lambda>childNode w1.
             bindR (rec parentDom (case inst_children ins of [] \<Rightarrow> None | c # cs \<Rightarrow> c) childNode
                      (componentChildPath env path childNode) w1)
               (\<lambda>newChildInstance w2.
                  Some (Inr (Instance (iid ins) (inst_kind ins)
                               (case newChildInstance of None \<Rightarrow> None | Some c \<Rightarrow> getFirstDom c) n
                               (case newChildInstance of None \<Rightarrow> [] | Some c \<Rightarrow> [Some c])
                               (inst_key ins) (inst_path ins)), w2))))"

definition updateInstance ::
  "reconciler \<Rightarrow> jsenv \<Rightarrow> (nat \<Rightarrow> component) \<Rightarrow> nat \<Rightarrow> inst \<Rightarrow> vnode \<Rightarrow> string \<Rightarrow> world \<Rightarrow> inst result" where
  "updateInstance rec env comps parentDom ins n path w =
     (if inst_kind ins = TEXT then
        (let newValue = nodeValueOf n;
             w1 = (case inst_dom ins of
                     None \<Rightarrow> w
                   | Some el \<Rightarrow>
                       if JStr (dom_value w el) \<noteq> newValue
                       then logOp (SetNodeValue el (String_js env newValue))
                              (w\<lparr>dom_value := (dom_value w)(el := String_js env newValue)\<rparr>)
                       else w)
         in Some (Inr (setNode ins n), w1))
      else if inst_kind ins = FRAGMENT then
        bindR (reconcileChildren rec env parentDom ins n path w)
          (\<lambda>ins1 w1. Some (Inr (setNode (setDom ins1 (getFirstDomFromChildren (inst_children ins1))) n), w1))
      else if inst_kind ins = COMPONENT then updateComponent rec env comps parentDom ins n path w
      else
        (case inst_dom ins of
           None \<Rightarrow> Some (Inl (TypeError ''instance.dom is null''), w)
         | Some el \<Rightarrow>
             bindR (reconcileChildren rec env el ins n path
                      (updateDomProps env el (propsOf (inst_node ins)) (propsOf n) w))
               (\<lambda>ins1 w1. Some (Inr (setNode ins1 n), w1))))"

text \<open>\<^verbatim>\<open>reconcile\<close>, to the depth given.\<close>

fun reconcile ::
  "nat \<Rightarrow> jsenv \<Rightarrow> (nat \<Rightarrow> component) \<Rightarrow> nat \<Rightarrow> inst option \<Rightarrow> vnode option \<Rightarrow> string \<Rightarrow> world
   \<Rightarrow> (inst option) result" where
  "reconcile 0 env comps parentDom ins n path w = None"
| "reconcile (Suc fuel) env comps parentDom ins n path w =
     (case n of
        None \<Rightarrow>
          (case ins of
             None \<Rightarrow> Some (Inr None, w)
           | Some i \<Rightarrow> bindR (Some (removeInstance parentDom (Some i) w)) (\<lambda>u w1. Some (Inr None, w1)))
      | Some newNode \<Rightarrow>
          (case ins of
             None \<Rightarrow>
               bindR (mountNode (reconcile fuel env comps) env comps parentDom newNode path w)
                 (\<lambda>i w1. Some (Inr (Some i), w1))
           | Some i \<Rightarrow>
               if \<not> strictEquals (vtype (inst_node i)) (vtype newNode) \<or> inst_key i \<noteq> vkey newNode then
                 bindR (Some (removeInstance parentDom (Some i) w))
                   (\<lambda>u w1. bindR (mountNode (reconcile fuel env comps) env comps parentDom newNode path w1)
                              (\<lambda>i1 w2. Some (Inr (Some i1), w2)))
               else
                 bindR (updateInstance (reconcile fuel env comps) env comps parentDom i newNode path w)
                   (\<lambda>i1 w1. Some (Inr (Some i1), w1))))"


section \<open>render and setup\<close>

text \<open>\<^verbatim>\<open>render\<close>: the pass that \<^verbatim>\<open>enqueueRender\<close> schedules and \<^verbatim>\<open>setup\<close> runs at once.\<close>

definition render :: "nat \<Rightarrow> jsenv \<Rightarrow> (nat \<Rightarrow> component) \<Rightarrow> world \<Rightarrow> unit result" where
  "render fuel env comps w =
     (let w0 = w\<lparr>hooks_visited := {}, hooks_cursor := (\<lambda>p. None)\<rparr>
      in case root_container w0 of
           None \<Rightarrow> Some (Inr (), w0)
         | Some container \<Rightarrow>
             (case root_node w0 of
                None \<Rightarrow> Some (Inr (), w0)
              | Some n \<Rightarrow>
                  bindR (reconcile fuel env comps container (root_instance w0) (Some n) ''0'' w0)
                    (\<lambda>newInstance w1.
                       bindR (Some (case newInstance of
                                      None \<Rightarrow> (Inr (), w1\<lparr>root_instance := newInstance\<rparr>)
                                    | Some i \<Rightarrow>
                                        if list_ex (\<lambda>nd. dom_parent w1 nd \<noteq> Some container) (getDomNodes i)
                                        then insertInstance container newInstance None (w1\<lparr>root_instance := newInstance\<rparr>)
                                        else (Inr (), w1\<lparr>root_instance := newInstance\<rparr>)))
                         (\<lambda>u w2. Some (cleanupUnusedHooks env w2)))))"

text \<open>
  The container argument of \<^verbatim>\<open>setup\<close>: missing (null or undefined), a value that is no
  \<^verbatim>\<open>HTMLElement\<close>, or an element of the surface.
\<close>

datatype containerArg = NoContainer | NotAnElement | Container nat

text \<open>
  \<^verbatim>\<open>setup\<close> (here \<open>setup_root\<close>). Modelled from the spec: \<^verbatim>\<open>context.root.reset\<close> and \<^verbatim>\<open>context.hooks.clear\<close> of
  \<^verbatim>\<open>./context\<close>, which is not among the sources: the root takes the new container and node
  and has no instance; the hook store is emptied.
\<close>

definition setup_root :: "nat \<Rightarrow> jsenv \<Rightarrow> (nat \<Rightarrow> component) \<Rightarrow> vnode option \<Rightarrow> containerArg \<Rightarrow> world \<Rightarrow> unit result" where
  "setup_root fuel env comps rootNode container w =
     (case container of
        NoContainer \<Rightarrow> Some (Inl (Error ''Container is required''), w)
      | NotAnElement \<Rightarrow> Some (Inl (Error ''Container is required''), w)
      | Container c \<Rightarrow>
          (case rootNode of
             None \<Rightarrow> Some (Inl (Error ''Cannot render null root element''), w)
           | Some n \<Rightarrow>
               bindR (Some (removeInstance c (root_instance w) w))
                 (\<lambda>u w1.
                    bindR (Some (cleanupUnusedHooks env (clearTextContent c w1)))
                      (\<lambda>u w2.
                         render fuel env comps
                           (w2\<lparr>root_container := Some c, root_node := Some n, root_instance := None,
                               hooks_state := [], hooks_cursor := (\<lambda>p. None), hooks_visited := {},
                               componentStack := [], effects_queue := []\<rparr>)))))"

text \<open>
  C9. \<^verbatim>\<open>setup\<close> fails fast on a configuration error. With a container that is missing or
  is no host element, and with a null root node, it throws and the context is exactly what
  it was before the call: the root, the hook store, the effect queue and everything else.
\<close>

theorem setup_fails_fast:
  "setup_root fuel env comps rootNode NoContainer w = Some (Inl (Error ''Container is required''), w)
   \<and> setup_root fuel env comps rootNode NotAnElement w = Some (Inl (Error ''Container is required''), w)
   \<and> setup_root fuel env comps None (Container c) w = Some (Inl (Error ''Cannot render null root element''), w)"
  by (simp add: setup_root_def)


section \<open>Re-rendering an unchanged tree\<close>

text \<open>A table of components that render nothing.\<close>

definition noComponents :: "nat \<Rightarrow> component" where
  "noComponents f ps w = (Inr None, w)"

text \<open>
  A button with a click handler, the surface with the container (node 0) alone, and the
  instance and surface after the button is mounted.
\<close>

definition buttonNode :: vnode where
  "buttonNode = VNode (JStr ''button'') None (Some ([(''onclick'', JFun 1)], None))"

definition emptySurface :: world where
  "emptySurface = initialWorld\<lparr>dom_next := 1\<rparr>"

definition buttonInstance :: inst where
  "buttonInstance = Instance 0 HOST (Some 1) buttonNode [] None ''0''"

definition buttonMounted :: world where
  "buttonMounted =
     emptySurface\<lparr>dom_children := (\<lambda>n. [])(0 := [1]), dom_parent := (\<lambda>n. None)(1 \<mapsto> 0),
                  dom_next := 2, inst_next := 1,
                  dom_log := [CreateElement 1 ''button'', AddEventListener 1 ''click'' (JFun 1), AppendChild 0 1]\<rparr>"

text \<open>The definitions a run on a concrete tree unfolds.\<close>

lemmas reconcile_eval =
  bindR_def mountNode_def mountComponent_def updateInstance_def updateComponent_def
  reconcileChildren_def matchChild_def createHostElement_def setDomProps_def setDomProp_def
  newInstance_def appendChild_def detach_def logOp_def childrenOf_def propsOf_def
  TEXT_ELEMENT_def Fragment_def startsWith_def eventName_def lowerChar_def
  updateDomProps_def updateDomPropsOps_def removedProp_def addedProp_def styleOps_def
  strictEquals_def objectIs_def getField_def coalesce_def nullish_def Let_def
  setChildren_def setNode_def setDom_def createTextNode_def nodeValueOf_def
  insertInstance_def removeInstance_def getFirstDomFromChildren_def nextSibling_def
  insertBefore_def putBefore_def removeChild_def createChildPath_def

lemma mount_button:
  "reconcile 1 noFunctions noComponents 0 None (Some buttonNode) ''0'' emptySurface
     = Some (Inr (Some buttonInstance), buttonMounted)"
  by (simp add: reconcile_eval buttonNode_def emptySurface_def initialWorld_def buttonInstance_def
        buttonMounted_def fun_eq_iff)

lemma update_button:
  "reconcile 1 noFunctions noComponents 0 (Some buttonInstance) (Some buttonNode) ''0'' buttonMounted
     = Some (Inr (Some buttonInstance),
             buttonMounted\<lparr>dom_log := dom_log buttonMounted @ [AddEventListener 1 ''click'' (JFun 1)]\<rparr>)"
  by (simp add: reconcile_eval buttonNode_def emptySurface_def initialWorld_def buttonInstance_def
        buttonMounted_def fun_eq_iff noFunctions_def)

text \<open>A host element whose one child is a Fragment of two texts.\<close>

definition textNode :: "string \<Rightarrow> vnode" where
  "textNode s = VNode TEXT_ELEMENT None (Some ([(''children'', JArr []), (''nodeValue'', JStr s)], None))"

definition groupNode :: vnode where
  "groupNode = VNode (JStr ''div'') None
                 (Some ([], Some [VNode Fragment None (Some ([], Some [textNode ''a'', textNode ''b'']))]))"

text \<open>
  C8, at two inputs. Re-rendering the mounted button with the identical node registers the
  unchanged click handler again: \<^verbatim>\<open>updateDomProps\<close> calls \<^verbatim>\<open>addEventListener\<close> whether or not
  the handler changed. Re-rendering the element with the Fragment child with the identical
  node appends both texts again: \<^verbatim>\<open>insertInstance\<close> compares each node of the Fragment with
  the same anchor, so only the last node of an instance can be found in place.
\<close>

theorem unchanged_rerender_mutates:
  "reconcile 1 noFunctions noComponents 0 None (Some buttonNode) ''0'' emptySurface
     = Some (Inr (Some buttonInstance), buttonMounted)
   \<and> reconcile 1 noFunctions noComponents 0 (Some buttonInstance) (Some buttonNode) ''0'' buttonMounted
     = Some (Inr (Some buttonInstance),
             buttonMounted\<lparr>dom_log := dom_log buttonMounted @ [AddEventListener 1 ''click'' (JFun 1)]\<rparr>)
   \<and> (case reconcile 3 noFunctions noComponents 0 None (Some groupNode) ''0'' emptySurface of
      Some (Inr i, w) \<Rightarrow>
        (case reconcile 3 noFunctions noComponents 0 i (Some groupNode) ''0'' w of
           Some (Inr j, w2) \<Rightarrow>
             map_option iid j = map_option iid i
             \<and> dom_children w 1 = [2, 3] \<and> dom_children w2 1 = [2, 3]
             \<and> dom_log w2 = dom_log w @ [AppendChild 1 2, AppendChild 1 3]
         | _ \<Rightarrow> False)
    | _ \<Rightarrow> False)"
proof -
  have g: "(case reconcile 3 noFunctions noComponents 0 None (Some groupNode) ''0'' emptySurface of
      Some (Inr i, w) \<Rightarrow>
        (case reconcile 3 noFunctions noComponents 0 i (Some groupNode) ''0'' w of
           Some (Inr j, w2) \<Rightarrow>
             map_option iid j = map_option iid i
             \<and> dom_children w 1 = [2, 3] \<and> dom_children w2 1 = [2, 3]
             \<and> dom_log w2 = dom_log w @ [AppendChild 1 2, AppendChild 1 3]
         | _ \<Rightarrow> False)
    | _ \<Rightarrow> False)"
    by (simp add: reconcile_eval groupNode_def textNode_def emptySurface_def initialWorld_def
          noFunctions_def numeral_3_eq_3 string_of_nat.simps [of 0] string_of_nat.simps [of 1] digit10_def
          sameObject_def)
  from mount_button update_button g show ?thesis by (intro conjI)
qed


section \<open>Replacing an instance\<close>


lemma bindR_Some [simp]: "bindR (Some (Inr x, w)) f = f x w"
  by (simp add: bindR_def)


text \<open>
  What a component function leaves alone: the surface and the counter of instance objects.
  A component that only calls the hooks and builds nodes satisfies \<open>hooksOnly\<close>.
\<close>

definition surfaceOf ::
  "world \<Rightarrow> (nat \<Rightarrow> nat option) \<times> (nat \<Rightarrow> nat list) \<times> (nat \<Rightarrow> string) \<times> nat \<times> domOp list \<times> nat" where
  "surfaceOf w = (dom_parent w, dom_children w, dom_value w, dom_next w, dom_log w, inst_next w)"






text \<open>
  A mount grows the surface: it makes new nodes and new instance objects and leaves the
  parent of every node that existed before as it was; the nodes of the instance it returns
  are new ones.
\<close>

definition grown :: "world \<Rightarrow> world \<Rightarrow> bool" where
  "grown w w' = (dom_next w \<le> dom_next w' \<and> inst_next w \<le> inst_next w'
                 \<and> (\<forall>m<dom_next w. dom_parent w' m = dom_parent w m))"

definition freshNodes :: "world \<Rightarrow> inst \<Rightarrow> world \<Rightarrow> bool" where
  "freshNodes w i w' = (set (getDomNodes i) \<subseteq> {dom_next w..<dom_next w'})"





lemma grown_surface: "surfaceOf w' = surfaceOf w \<Longrightarrow> grown w w'"
  by (simp add: grown_def surfaceOf_def)

lemma freshNodes_mono:
  "freshNodes w1 i w2 \<Longrightarrow> grown w w1 \<Longrightarrow> grown w2 w' \<Longrightarrow> freshNodes w i w'"
  by (auto simp: freshNodes_def grown_def)














end
